theory Spec2Isabelle
  imports Complex_Main "HOL-Library.Word" "HOL-Library.Log_Nat"
begin

section \<open>Floating-point values of the renderer\<close>

text \<open>
  The sphere renderer computes in C++ \<^verbatim>\<open>float\<close> and \<^verbatim>\<open>double\<close>.  A value of either type
  is a NaN, an infinity, a negative zero or a finite real; \<open>Fin 0\<close> is the positive zero.
  Every \<^verbatim>\<open>float\<close> is also a \<^verbatim>\<open>double\<close>, so both types share one carrier and the
  promotion from \<^verbatim>\<open>float\<close> to \<^verbatim>\<open>double\<close> is the identity.
\<close>

datatype fp = NaN | PInf | NInf | NZero | Fin real

fun is_finite :: "fp \<Rightarrow> bool" where
  "is_finite NZero = True"
| "is_finite (Fin x) = True"
| "is_finite _ = False"

fun valof :: "fp \<Rightarrow> real" where
  "valof (Fin x) = x"
| "valof _ = 0"

fun signbit :: "fp \<Rightarrow> bool" where
  "signbit NInf = True"
| "signbit NZero = True"
| "signbit (Fin x) = (x < 0)"
| "signbit _ = False"

definition zero_of :: "bool \<Rightarrow> fp" where
  "zero_of neg = (if neg then NZero else Fin 0)"

definition inf_of :: "bool \<Rightarrow> fp" where
  "inf_of neg = (if neg then NInf else PInf)"

subsection \<open>Rounding\<close>

text \<open>
  A rounding function maps the exact, non-zero real result of an operation to the value
  that is stored.  \<open>round_to p emax\<close> is IEEE 754 round-to-nearest, ties-to-even, for the
  binary format with \<open>p\<close> significand bits and largest exponent \<open>emax\<close>: the result
  overflows to an infinity and underflows through the subnormals to a signed zero.
\<close>

definition pow2 :: "int \<Rightarrow> real" where
  "pow2 e = (if 0 \<le> e then 2 ^ nat e else 1 / 2 ^ nat (- e))"

text \<open>The integer part of the binary logarithm of a positive real.\<close>

definition ilog2 :: "real \<Rightarrow> int" where
  "ilog2 x = (if 1 \<le> x then int (floorlog 2 (nat \<lfloor>x\<rfloor>)) - 1
              else - int (floorlog 2 (nat (\<lceil>1 / x\<rceil> - 1))))"

text \<open>Rounding to the nearest integer, a tie going to the even neighbour.\<close>

definition rne :: "real \<Rightarrow> int" where
  "rne y = (let f = \<lfloor>y\<rfloor>; d = y - of_int f in
            if d < 1 / 2 then f
            else if 1 / 2 < d then f + 1
            else if even f then f else f + 1)"

definition round_to :: "nat \<Rightarrow> int \<Rightarrow> real \<Rightarrow> fp" where
  "round_to p emax x =
     (let e = max (ilog2 \<bar>x\<bar>) (1 - emax) - (int p - 1);
          m = rne (\<bar>x\<bar> / pow2 e);
          y = of_int m * pow2 e
      in if pow2 (emax + 1) \<le> y then inf_of (x < 0)
         else if m = 0 then zero_of (x < 0)
         else Fin (if x < 0 then - y else y))"

definition binary32 :: "real \<Rightarrow> fp" where
  "binary32 = round_to 24 127"

definition binary64 :: "real \<Rightarrow> fp" where
  "binary64 = round_to 53 1023"

subsection \<open>Operations\<close>

text \<open>
  The operations follow IEEE 754: a NaN operand gives NaN, the invalid operations
  (\<open>\<infinity> - \<infinity>\<close>, \<open>0 \<times> \<infinity>\<close>, \<open>0 / 0\<close>, \<open>\<infinity> / \<infinity>\<close>, the root of a negative number) give NaN,
  a finite non-zero number divided by a zero gives an infinity, and an exact zero result
  carries the sign the standard prescribes.  The first argument is the rounding of the
  type in which C++ evaluates the operation.
\<close>

fun fneg :: "fp \<Rightarrow> fp" where
  "fneg NaN = NaN"
| "fneg PInf = NInf"
| "fneg NInf = PInf"
| "fneg NZero = Fin 0"
| "fneg (Fin x) = (if x = 0 then NZero else Fin (- x))"

definition fadd :: "(real \<Rightarrow> fp) \<Rightarrow> fp \<Rightarrow> fp \<Rightarrow> fp" where
  "fadd r x y =
     (if x = NaN \<or> y = NaN then NaN
      else if x = PInf then (if y = NInf then NaN else PInf)
      else if x = NInf then (if y = PInf then NaN else NInf)
      else if y = PInf \<or> y = NInf then y
      else let s = valof x + valof y in
           if s = 0 then zero_of (x = NZero \<and> y = NZero) else r s)"

definition fsub :: "(real \<Rightarrow> fp) \<Rightarrow> fp \<Rightarrow> fp \<Rightarrow> fp" where
  "fsub r x y = fadd r x (fneg y)"

definition fmul :: "(real \<Rightarrow> fp) \<Rightarrow> fp \<Rightarrow> fp \<Rightarrow> fp" where
  "fmul r x y =
     (let neg = (signbit x \<noteq> signbit y) in
      if x = NaN \<or> y = NaN then NaN
      else if is_finite x \<and> is_finite y then
        (let p = valof x * valof y in if p = 0 then zero_of neg else r p)
      else if (is_finite x \<and> valof x = 0) \<or> (is_finite y \<and> valof y = 0) then NaN
      else inf_of neg)"

definition fdiv :: "(real \<Rightarrow> fp) \<Rightarrow> fp \<Rightarrow> fp \<Rightarrow> fp" where
  "fdiv r x y =
     (let neg = (signbit x \<noteq> signbit y) in
      if x = NaN \<or> y = NaN then NaN
      else if is_finite x \<and> is_finite y then
        (if valof y = 0 then (if valof x = 0 then NaN else inf_of neg)
         else if valof x = 0 then zero_of neg
         else r (valof x / valof y))
      else if is_finite x then zero_of neg
      else if is_finite y then inf_of neg
      else NaN)"

fun fsqrt :: "(real \<Rightarrow> fp) \<Rightarrow> fp \<Rightarrow> fp" where
  "fsqrt r NaN = NaN"
| "fsqrt r PInf = PInf"
| "fsqrt r NInf = NaN"
| "fsqrt r NZero = NZero"
| "fsqrt r (Fin x) = (if x < 0 then NaN else if x = 0 then Fin 0 else r (sqrt x))"

text \<open>Conversion to a narrower type; the specials and the zeros are kept.\<close>

fun fconv :: "(real \<Rightarrow> fp) \<Rightarrow> fp \<Rightarrow> fp" where
  "fconv r (Fin x) = (if x = 0 then Fin 0 else r x)"
| "fconv r x = x"

text \<open>
  The comparisons: every comparison with a NaN is false, the two zeros are equal.
\<close>

fun flt :: "fp \<Rightarrow> fp \<Rightarrow> bool" where
  "flt NaN _ = False"
| "flt _ NaN = False"
| "flt PInf _ = False"
| "flt _ NInf = False"
| "flt NInf _ = True"
| "flt _ PInf = True"
| "flt x y = (valof x < valof y)"

definition fgt :: "fp \<Rightarrow> fp \<Rightarrow> bool" where
  "fgt x y = flt y x"

fun feq :: "fp \<Rightarrow> fp \<Rightarrow> bool" where
  "feq NaN _ = False"
| "feq _ NaN = False"
| "feq PInf y = (y = PInf)"
| "feq NInf y = (y = NInf)"
| "feq x PInf = False"
| "feq x NInf = False"
| "feq x y = (valof x = valof y)"

subsection \<open>The arithmetic of a build\<close>

text \<open>
  The rounding of the two types is a parameter of the model.  \<open>ieee\<close> is the arithmetic of
  a build that evaluates every operation in the type C++ gives it (binary32 for
  \<^verbatim>\<open>float\<close>, binary64 for \<^verbatim>\<open>double\<close>), rounds to nearest and never fuses a product with a
  sum.  A statement about every arithmetic \<open>A\<close> holds for it and for any other rounding
  of the two types.
\<close>

record arith =
  rnd_float :: "real \<Rightarrow> fp"
  rnd_double :: "real \<Rightarrow> fp"

definition ieee :: arith where
  "ieee = \<lparr>rnd_float = binary32, rnd_double = binary64\<rparr>"

definition addf :: "arith \<Rightarrow> fp \<Rightarrow> fp \<Rightarrow> fp" where
  "addf A = fadd (rnd_float A)"

definition subf :: "arith \<Rightarrow> fp \<Rightarrow> fp \<Rightarrow> fp" where
  "subf A = fsub (rnd_float A)"

definition mulf :: "arith \<Rightarrow> fp \<Rightarrow> fp \<Rightarrow> fp" where
  "mulf A = fmul (rnd_float A)"

definition divf :: "arith \<Rightarrow> fp \<Rightarrow> fp \<Rightarrow> fp" where
  "divf A = fdiv (rnd_float A)"

definition addd :: "arith \<Rightarrow> fp \<Rightarrow> fp \<Rightarrow> fp" where
  "addd A = fadd (rnd_double A)"

definition subd :: "arith \<Rightarrow> fp \<Rightarrow> fp \<Rightarrow> fp" where
  "subd A = fsub (rnd_double A)"

definition muld :: "arith \<Rightarrow> fp \<Rightarrow> fp \<Rightarrow> fp" where
  "muld A = fmul (rnd_double A)"

definition divd :: "arith \<Rightarrow> fp \<Rightarrow> fp \<Rightarrow> fp" where
  "divd A = fdiv (rnd_double A)"

definition sqrtd :: "arith \<Rightarrow> fp \<Rightarrow> fp" where
  "sqrtd A = fsqrt (rnd_double A)"

definition to_float :: "arith \<Rightarrow> fp \<Rightarrow> fp" where
  "to_float A = fconv (rnd_float A)"

section \<open>The sphere intersector of examples/las/render.cc\<close>

subsection \<open>Vectors, rays and trace options\<close>

text \<open>
  Modelled from the spec: the vector type \<^verbatim>\<open>nanort::real3\<close> with its componentwise
  difference, sum, scaling, \<^verbatim>\<open>vdot\<close> and \<^verbatim>\<open>vnormalize\<close>, the record \<^verbatim>\<open>nanort::Ray\<close> and the
  record \<^verbatim>\<open>nanort::BVHTraceOptions\<close> are declared in nanort.h, which is not among the
  sources.  The spec (sections 3 and 4.1) gives a vector three \<^verbatim>\<open>float\<close> components with
  componentwise arithmetic, dot product, length and normalisation, a ray its origin,
  direction, \<open>min_t\<close> and \<open>max_t\<close>, and the trace options the half-open range of primitive
  ids that are tested.  All vector arithmetic is \<^verbatim>\<open>float\<close> arithmetic.
\<close>

type_synonym float3 = "fp \<times> fp \<times> fp"

fun vsub :: "arith \<Rightarrow> float3 \<Rightarrow> float3 \<Rightarrow> float3" where
  "vsub A (a0, a1, a2) (b0, b1, b2) = (subf A a0 b0, subf A a1 b1, subf A a2 b2)"

fun vadd :: "arith \<Rightarrow> float3 \<Rightarrow> float3 \<Rightarrow> float3" where
  "vadd A (a0, a1, a2) (b0, b1, b2) = (addf A a0 b0, addf A a1 b1, addf A a2 b2)"

fun vscale :: "arith \<Rightarrow> fp \<Rightarrow> float3 \<Rightarrow> float3" where
  "vscale A f (b0, b1, b2) = (mulf A f b0, mulf A f b1, mulf A f b2)"

fun vdot :: "arith \<Rightarrow> float3 \<Rightarrow> float3 \<Rightarrow> fp" where
  "vdot A (a0, a1, a2) (b0, b1, b2) =
     addf A (addf A (mulf A a0 b0) (mulf A a1 b1)) (mulf A a2 b2)"

definition vlength :: "arith \<Rightarrow> float3 \<Rightarrow> fp" where
  "vlength A v = fsqrt (rnd_float A) (vdot A v v)"

fun vnormalize :: "arith \<Rightarrow> float3 \<Rightarrow> float3" where
  "vnormalize A (a0, a1, a2) =
     (let len = vlength A (a0, a1, a2) in (divf A a0 len, divf A a1 len, divf A a2 len))"

record Ray =
  org :: float3
  dir :: float3
  min_t :: fp
  max_t :: fp

text \<open>\<open>prim_ids_range\<close> holds the two \<^verbatim>\<open>unsigned int\<close> bounds \<open>[lo, hi)\<close>.\<close>

record BVHTraceOptions =
  prim_ids_range :: "32 word \<times> 32 word"
  cull_back_face :: bool

subsection \<open>The intersector object\<close>

text \<open>
  The members of \<^verbatim>\<open>SphereIntersector\<close>; the source writes each with a trailing underscore
  (\<^verbatim>\<open>vertices_\<close>, \<^verbatim>\<open>t_\<close>, ...), which is written \<open>_m\<close> here.  The two pointers are the
  arrays they point into: \<open>vertices_m\<close> holds three coordinates per sphere,
  \<open>radiuss_m\<close> one radius per sphere.  \<open>t_m\<close> and \<open>prim_id_m\<close> are the recorded closest
  hit.
\<close>

record SphereIntersector =
  vertices_m :: "fp list"
  radiuss_m :: "fp list"
  ray_org_m :: float3
  ray_dir_m :: float3
  trace_options_m :: BVHTraceOptions
  t_m :: fp
  prim_id_m :: "32 word"

text \<open>
  The fields \<^verbatim>\<open>u\<close>, \<^verbatim>\<open>v\<close>, \<^verbatim>\<open>t\<close> and \<^verbatim>\<open>prim_id\<close> of \<^verbatim>\<open>SphereIntersection\<close>.
\<close>

record SphereIntersection =
  isect_u :: fp
  isect_v :: fp
  isect_t :: fp
  isect_prim_id :: "32 word"

text \<open>
  A read through one of the two pointers beyond the array it points into has no defined
  behaviour; the model stops with \<open>OutOfBounds\<close>.
\<close>

datatype fault = OutOfBounds

definition load :: "fp list \<Rightarrow> nat \<Rightarrow> fault + fp" where
  "load xs i = (if i < length xs then Inr (xs ! i) else Inl OutOfBounds)"

definition load3 :: "fp list \<Rightarrow> nat \<Rightarrow> fault + float3" where
  "load3 xs i =
     (if i + 2 < length xs then Inr (xs ! i, xs ! (i + 1), xs ! (i + 2)) else Inl OutOfBounds)"

subsection \<open>PrepareTraversal, Intersect, Update\<close>

text \<open>
  \<^verbatim>\<open>PrepareTraversal\<close> copies origin and direction of the ray and the trace options into
  the object; \<open>min_t\<close> and \<open>max_t\<close> of the ray are not copied.
\<close>

definition PrepareTraversal :: "SphereIntersector \<Rightarrow> Ray \<Rightarrow> BVHTraceOptions \<Rightarrow> SphereIntersector" where
  "PrepareTraversal S ray trace_options =
     S\<lparr>ray_org_m := org ray, ray_dir_m := dir ray, trace_options_m := trace_options\<rparr>"

definition Update :: "SphereIntersector \<Rightarrow> fp \<Rightarrow> 32 word \<Rightarrow> SphereIntersector" where
  "Update S t prim_idx = S\<lparr>t_m := t, prim_id_m := prim_idx\<rparr>"

definition GetT :: "SphereIntersector \<Rightarrow> fp" where
  "GetT S = t_m S"

text \<open>
  The coefficients of the quadratic, as \<^verbatim>\<open>Intersect\<close> computes them.  The literals
  \<^verbatim>\<open>2.0\<close> and \<^verbatim>\<open>4.0\<close> are \<^verbatim>\<open>double\<close>, so the products with them are \<^verbatim>\<open>double\<close> products
  whose result is converted to \<^verbatim>\<open>float\<close> by the assignment.
\<close>

definition quad_a :: "arith \<Rightarrow> float3 \<Rightarrow> fp" where
  "quad_a A rdir = vdot A rdir rdir"

definition quad_b :: "arith \<Rightarrow> float3 \<Rightarrow> float3 \<Rightarrow> fp" where
  "quad_b A rdir oc = to_float A (muld A (Fin 2) (vdot A rdir oc))"

definition quad_c :: "arith \<Rightarrow> float3 \<Rightarrow> fp \<Rightarrow> fp" where
  "quad_c A oc radius = subf A (vdot A oc oc) (mulf A radius radius)"

definition quad_disc :: "arith \<Rightarrow> fp \<Rightarrow> fp \<Rightarrow> fp \<Rightarrow> fp" where
  "quad_disc A a b c = to_float A (subd A (mulf A b b) (muld A (muld A (Fin 4) a) c))"

text \<open>
  The two roots \<open>(t0, t1)\<close> for a discriminant that is not below zero, before they are
  put in order.  \<^verbatim>\<open>sqrt\<close> is the C function on \<^verbatim>\<open>double\<close>.
\<close>

definition quad_roots :: "arith \<Rightarrow> fp \<Rightarrow> fp \<Rightarrow> fp \<Rightarrow> fp \<Rightarrow> fp \<times> fp" where
  "quad_roots A a b c disc =
     (if feq disc (Fin 0) then
        (let t0 = to_float A (muld A (Fin (- (1 / 2))) (divf A b a)) in (t0, t0))
      else
        (let distSqrt = to_float A (sqrtd A disc);
             q = (if flt b (Fin 0)
                  then to_float A (divd A (subf A (fneg b) distSqrt) (Fin 2))
                  else to_float A (divd A (addf A (fneg b) distSqrt) (Fin 2)))
         in (divf A q a, divf A c q)))"

text \<open>
  \<^verbatim>\<open>Intersect\<close> returns its result, the new value of \<^verbatim>\<open>*t_inout\<close> and the object.
\<close>

definition Intersect ::
  "arith \<Rightarrow> SphereIntersector \<Rightarrow> fp \<Rightarrow> 32 word \<Rightarrow> fault + (bool \<times> fp \<times> SphereIntersector)" where
  "Intersect A S t_inout prim_index =
     (if prim_index < fst (prim_ids_range (trace_options_m S)) \<or>
         prim_index \<ge> snd (prim_ids_range (trace_options_m S))
      then Inr (False, t_inout, S)
      else
        case load3 (vertices_m S) (unat (3 * prim_index)) of
          Inl e \<Rightarrow> Inl e
        | Inr center \<Rightarrow>
           (case load (radiuss_m S) (unat prim_index) of
              Inl e \<Rightarrow> Inl e
            | Inr radius \<Rightarrow>
               (let oc = vsub A (ray_org_m S) center;
                    a = quad_a A (ray_dir_m S);
                    b = quad_b A (ray_dir_m S) oc;
                    c = quad_c A oc radius;
                    disc = quad_disc A a b c
                in if flt disc (Fin 0) then Inr (False, t_inout, S)
                   else
                     (let (r0, r1) = quad_roots A a b c disc;
                          (t0, t1) = (if fgt r0 r1 then (r1, r0) else (r0, r1))
                      in if flt t1 (Fin 0) then Inr (False, t_inout, S)
                         else
                           (let t = (if flt t0 (Fin 0) then t1 else t0)
                            in if fgt t t_inout then Inr (False, t_inout, S)
                               else Inr (True, t, S))))))"

subsection \<open>PostTraversal\<close>

text \<open>
  \<^verbatim>\<open>atan2\<close> and \<^verbatim>\<open>acos\<close> are the functions of the C library on \<^verbatim>\<open>double\<close>; the C standard
  does not fix their rounding, so they are a parameter.  \<^verbatim>\<open>M_PI\<close> is the \<^verbatim>\<open>double\<close>
  nearest to \<open>\<pi>\<close>, \<^verbatim>\<open>0x400921FB54442D18\<close>.
\<close>

record libm =
  c_atan2 :: "fp \<Rightarrow> fp \<Rightarrow> fp"
  c_acos :: "fp \<Rightarrow> fp"

definition M_PI :: fp where
  "M_PI = Fin (884279719003555 / 281474976710656)"

text \<open>
  A C library whose two functions are correctly rounded, with the special cases of
  Annex F of the C standard: the sign of the result of \<^verbatim>\<open>atan2(y, x)\<close> is the sign of \<open>y\<close>.
\<close>

definition atan2_real :: "real \<Rightarrow> real \<Rightarrow> real" where
  "atan2_real y x =
     (if 0 < x then arctan (y / x)
      else if x < 0 then (if 0 \<le> y then arctan (y / x) + pi else arctan (y / x) - pi)
      else if 0 < y then pi / 2
      else if y < 0 then - (pi / 2)
      else 0)"

definition with_sign_of :: "fp \<Rightarrow> fp \<Rightarrow> fp" where
  "with_sign_of y r = (if signbit y then fneg r else r)"

definition cr_atan2 :: "fp \<Rightarrow> fp \<Rightarrow> fp" where
  "cr_atan2 y x =
     (if y = NaN \<or> x = NaN then NaN
      else if is_finite y \<and> valof y = 0 then
        with_sign_of y (if signbit x then binary64 pi else Fin 0)
      else if \<not> is_finite y then
        with_sign_of y (if x = NInf then binary64 (3 * pi / 4)
                        else if x = PInf then binary64 (pi / 4)
                        else binary64 (pi / 2))
      else if x = NInf then with_sign_of y (binary64 pi)
      else if x = PInf then with_sign_of y (Fin 0)
      else if valof x = 0 then with_sign_of y (binary64 (pi / 2))
      else binary64 (atan2_real (valof y) (valof x)))"

definition cr_acos :: "fp \<Rightarrow> fp" where
  "cr_acos x =
     (if is_finite x \<and> \<bar>valof x\<bar> \<le> 1
      then (if valof x = 1 then Fin 0 else binary64 (arccos (valof x)))
      else NaN)"

definition libm_cr :: libm where
  "libm_cr = \<lparr>c_atan2 = cr_atan2, c_acos = cr_acos\<rparr>"

text \<open>The unit normal at the recorded hit: \<^verbatim>\<open>vnormalize(hitP - center)\<close>.\<close>

definition hit_normal :: "arith \<Rightarrow> SphereIntersector \<Rightarrow> float3 \<Rightarrow> float3" where
  "hit_normal A S center =
     (let hitP = vadd A (ray_org_m S) (vscale A (t_m S) (ray_dir_m S))
      in vnormalize A (vsub A hitP center))"

definition PostTraversal ::
  "arith \<Rightarrow> libm \<Rightarrow> SphereIntersector \<Rightarrow> Ray \<Rightarrow> bool \<Rightarrow> SphereIntersection \<Rightarrow> fault + SphereIntersection" where
  "PostTraversal A L S ray hit isect =
     (if hit then
        (case load3 (vertices_m S) (unat (3 * prim_id_m S)) of
           Inl e \<Rightarrow> Inl e
         | Inr center \<Rightarrow>
            (case hit_normal A S center of
               (n0, n1, n2) \<Rightarrow>
                 Inr (isect\<lparr>isect_t := t_m S,
                            isect_prim_id := prim_id_m S,
                            isect_u := to_float A
                               (muld A (muld A (addd A (c_atan2 L n0 n2) M_PI) (Fin (1 / 2)))
                                  (divd A (Fin 1) M_PI)),
                            isect_v := to_float A (divd A (c_acos L n1) M_PI)\<rparr>)))
      else Inr isect)"

subsection \<open>The traverser's use of the intersector\<close>

text \<open>
  Modelled from the spec: the traverser \<^verbatim>\<open>BVHAccel::Traverse\<close> of nanort.h, which is not
  among the sources.  By the spec (section 4.4) it calls \<open>prepare\<close> once, then for the
  primitive ids of a leaf, in order, calls \<open>intersect(t_current, id)\<close> and on a hit tightens
  \<open>t_current\<close>; by section 3 the closest-hit record is updated on success, which render.cc
  does in \<^verbatim>\<open>Update\<close> ("Update is called when a nearest hit is found").  By section 8 the
  result of a traversal is that of a linear scan over the primitives with the same
  intersector, so the hierarchy itself is left out: \<open>leaf_scan\<close> tests a list of primitive
  ids in order.  The state is the intersector, the current closest distance and the hit
  flag.
\<close>

definition leaf_test ::
  "arith \<Rightarrow> SphereIntersector \<times> fp \<times> bool \<Rightarrow> 32 word \<Rightarrow> fault + (SphereIntersector \<times> fp \<times> bool)" where
  "leaf_test A st prim_index =
     (case st of (S, t_current, hit) \<Rightarrow>
        (case Intersect A S t_current prim_index of
           Inl e \<Rightarrow> Inl e
         | Inr (found, local_t, S') \<Rightarrow>
             if found then Inr (Update S' local_t prim_index, local_t, True)
             else Inr (S', t_current, hit)))"

fun leaf_scan ::
  "arith \<Rightarrow> SphereIntersector \<times> fp \<times> bool \<Rightarrow> 32 word list \<Rightarrow> fault + (SphereIntersector \<times> fp \<times> bool)" where
  "leaf_scan A st [] = Inr st"
| "leaf_scan A st (i # ids) =
     (case leaf_test A st i of Inl e \<Rightarrow> Inl e | Inr st' \<Rightarrow> leaf_scan A st' ids)"

text \<open>
  Modelled from the spec: the default trace options, declared in nanort.h.  By the spec
  (section 3) the default range is \<open>[0, N)\<close> for \<open>N\<close> primitives, and back faces are not
  culled.
\<close>

definition default_trace_options :: "32 word \<Rightarrow> BVHTraceOptions" where
  "default_trace_options n = \<lparr>prim_ids_range = (0, n), cull_back_face = False\<rparr>"

section \<open>Building the hierarchy: Renderer::BuildBVH\<close>

text \<open>
  The particles and the acceleration structure are globals of render.cc.  The structure
  \<^verbatim>\<open>nanort::BVHAccel\<close> and its \<^verbatim>\<open>Build\<close> are declared in nanort.h; the structure is a type
  parameter and \<^verbatim>\<open>Build\<close> a parameter of the model, which receives the number of
  primitives, the geometry, the predicate, the options and the structure, and returns its
  result and the new structure.  The lines that only print are left out.
\<close>

record Particles =
  vertices :: "fp list"
  colors :: "fp list"
  radiuss :: "fp list"

record SphereGeometry =
  geom_vertices :: "fp list"
  geom_radiuss :: "fp list"

record SpherePred =
  pred_axis :: int
  pred_pos :: fp
  pred_vertices :: "fp list"

text \<open>
  Modelled from the spec: the build options of nanort.h with the defaults of the table in
  section 6 of the spec.
\<close>

record BVHBuildOptions =
  min_leaf_primitives :: nat
  max_leaf_primitives :: nat
  bin_size :: nat
  max_tree_depth :: nat
  cache_bbox :: bool

definition default_build_options :: BVHBuildOptions where
  "default_build_options =
     \<lparr>min_leaf_primitives = 4, max_leaf_primitives = 16, bin_size = 64,
      max_tree_depth = 30, cache_bbox = False\<rparr>"

record 'acc globals =
  gParticles :: Particles
  gAccel :: 'acc

text \<open>
  \<^verbatim>\<open>vertices.at(0)\<close> throws on an empty vector, and \<^verbatim>\<open>assert(ret)\<close> aborts when the build
  fails (in a build that keeps assertions).
\<close>

datatype build_fault = OutOfRange | AssertFailed

type_synonym 'acc build_fn =
  "nat \<Rightarrow> SphereGeometry \<Rightarrow> SpherePred \<Rightarrow> BVHBuildOptions \<Rightarrow> 'acc \<Rightarrow> bool \<times> 'acc"

definition BuildBVH :: "'acc build_fn \<Rightarrow> 'acc globals \<Rightarrow> build_fault + (bool \<times> 'acc globals)" where
  "BuildBVH Build g =
     (if length (radiuss (gParticles g)) < 1 then Inr (False, g)
      else if vertices (gParticles g) = [] then Inl OutOfRange
      else
        (let build_options = default_build_options\<lparr>cache_bbox := False\<rparr>;
             sphere_geom = \<lparr>geom_vertices = vertices (gParticles g),
                            geom_radiuss = radiuss (gParticles g)\<rparr>;
             sphere_pred = \<lparr>pred_axis = 0, pred_pos = Fin 0,
                            pred_vertices = vertices (gParticles g)\<rparr>
         in case Build (length (radiuss (gParticles g))) sphere_geom sphere_pred build_options
                   (gAccel g) of
              (ret, accel) \<Rightarrow>
                if ret then Inr (True, g\<lparr>gAccel := accel\<rparr>) else Inl AssertFailed))"

section \<open>The render configuration: LoadRenderConfig\<close>

text \<open>
  \<^verbatim>\<open>LoadRenderConfig\<close> reads a JSON value with picojson.  A picojson value is null, a boolean,
  a number (a \<^verbatim>\<open>double\<close>), a string, an array or an object; an object is a \<^verbatim>\<open>std::map\<close> from
  strings to values.
\<close>

datatype json =
    JNull
  | JBool bool
  | JNumber fp
  | JString string
  | JArray "json list"
  | JObject "string \<Rightarrow> json option"

text \<open>
  The fields of \<^verbatim>\<open>RenderConfig\<close> (render-config.h) that \<^verbatim>\<open>LoadRenderConfig\<close> writes.
\<close>

record RenderConfig =
  las_filename :: string
  scene_scale :: fp
  max_points :: "32 word"
  eye :: float3
  up :: float3
  look_at :: float3
  fov :: fp
  width :: int
  height :: int

text \<open>
  \<^verbatim>\<open>get<double>()\<close> on a value that is not a number throws; the conversion of a \<^verbatim>\<open>double\<close>
  to an integer type truncates towards zero and has no defined behaviour when the
  truncated value is not in the range of the type.
\<close>

datatype config_fault = TypeMismatch | CastOutOfRange

definition and_then :: "'e + 'a \<Rightarrow> ('a \<Rightarrow> 'e + 'b) \<Rightarrow> 'e + 'b" where
  "and_then m f = (case m of Inl e \<Rightarrow> Inl e | Inr x \<Rightarrow> f x)"

definition get_double :: "json \<Rightarrow> config_fault + fp" where
  "get_double j = (case j of JNumber x \<Rightarrow> Inr x | _ \<Rightarrow> Inl TypeMismatch)"

definition trunc_real :: "real \<Rightarrow> int" where
  "trunc_real x = (if 0 \<le> x then \<lfloor>x\<rfloor> else \<lceil>x\<rceil>)"

definition double_to_int :: "fp \<Rightarrow> config_fault + int" where
  "double_to_int d =
     (case d of
        Fin x \<Rightarrow> (let n = trunc_real x in
                  if - (2 ^ 31) \<le> n \<and> n < 2 ^ 31 then Inr n else Inl CastOutOfRange)
      | NZero \<Rightarrow> Inr 0
      | _ \<Rightarrow> Inl CastOutOfRange)"

definition double_to_uint32 :: "fp \<Rightarrow> config_fault + 32 word" where
  "double_to_uint32 d =
     (case d of
        Fin x \<Rightarrow> (let n = trunc_real x in
                  if 0 \<le> n \<and> n < 2 ^ 32 then Inr (word_of_int n) else Inl CastOutOfRange)
      | NZero \<Rightarrow> Inr 0
      | _ \<Rightarrow> Inl CastOutOfRange)"

definition int_to_float :: "arith \<Rightarrow> int \<Rightarrow> fp" where
  "int_to_float A n = (if n = 0 then Fin 0 else rnd_float A (of_int n))"

text \<open>
  The three blocks for \<^verbatim>\<open>eye\<close>, \<^verbatim>\<open>up\<close> and \<^verbatim>\<open>look_at\<close>: an array of three elements
  replaces the default, each element read with \<^verbatim>\<open>get<double>()\<close>.
\<close>

definition read_vec3 :: "arith \<Rightarrow> (string \<Rightarrow> json option) \<Rightarrow> string \<Rightarrow> float3 \<Rightarrow> config_fault + float3" where
  "read_vec3 A obj key dflt =
     (case obj key of
        Some (JArray arr) \<Rightarrow>
          if length arr = 3 then
            and_then (get_double (arr ! 0)) (\<lambda>x.
            and_then (get_double (arr ! 1)) (\<lambda>y.
            and_then (get_double (arr ! 2)) (\<lambda>z.
              Inr (to_float A x, to_float A y, to_float A z))))
          else Inr dflt
      | _ \<Rightarrow> Inr dflt)"

definition read_las_filename :: "(string \<Rightarrow> json option) \<Rightarrow> RenderConfig \<Rightarrow> RenderConfig" where
  "read_las_filename obj config =
     (case obj ''las_filename'' of
        Some (JString s) \<Rightarrow> config\<lparr>las_filename := s\<rparr>
      | _ \<Rightarrow> config)"

definition read_scene_scale :: "arith \<Rightarrow> (string \<Rightarrow> json option) \<Rightarrow> RenderConfig \<Rightarrow> RenderConfig" where
  "read_scene_scale A obj config =
     (case obj ''scene_scale'' of
        Some (JNumber x) \<Rightarrow> config\<lparr>scene_scale := to_float A x\<rparr>
      | _ \<Rightarrow> config\<lparr>scene_scale := Fin 1\<rparr>)"

definition read_max_points :: "(string \<Rightarrow> json option) \<Rightarrow> RenderConfig \<Rightarrow> config_fault + RenderConfig" where
  "read_max_points obj config =
     (case obj ''max_points'' of
        Some (JNumber x) \<Rightarrow> and_then (double_to_uint32 x) (\<lambda>n. Inr (config\<lparr>max_points := n\<rparr>))
      | _ \<Rightarrow> Inr config)"

text \<open>
  The block for \<^verbatim>\<open>fov\<close>.  The guard of the assignment tests \<^verbatim>\<open>o["width"]\<close>, not
  \<^verbatim>\<open>o["fov"]\<close>; \<^verbatim>\<open>operator[]\<close> of the map inserts a null value for a key that is not
  there, so the block also returns the object.
\<close>

definition read_fov ::
  "arith \<Rightarrow> (string \<Rightarrow> json option) \<Rightarrow> RenderConfig
     \<Rightarrow> config_fault + (RenderConfig \<times> (string \<Rightarrow> json option))" where
  "read_fov A obj config =
     (let config = config\<lparr>fov := Fin 45\<rparr> in
      case obj ''fov'' of
        None \<Rightarrow> Inr (config, obj)
      | Some f \<Rightarrow>
         (case obj ''width'' of
            None \<Rightarrow> Inr (config, obj(''width'' \<mapsto> JNull))
          | Some (JNumber w) \<Rightarrow>
              and_then (get_double f) (\<lambda>x.
              and_then (double_to_int x) (\<lambda>n.
                Inr (config\<lparr>fov := int_to_float A n\<rparr>, obj)))
          | Some _ \<Rightarrow> Inr (config, obj)))"

definition read_width :: "(string \<Rightarrow> json option) \<Rightarrow> RenderConfig \<Rightarrow> config_fault + RenderConfig" where
  "read_width obj config =
     (case obj ''width'' of
        Some (JNumber x) \<Rightarrow> and_then (double_to_int x) (\<lambda>n. Inr (config\<lparr>width := n\<rparr>))
      | _ \<Rightarrow> Inr (config\<lparr>width := 512\<rparr>))"

definition read_height :: "(string \<Rightarrow> json option) \<Rightarrow> RenderConfig \<Rightarrow> config_fault + RenderConfig" where
  "read_height obj config =
     (case obj ''height'' of
        Some (JNumber x) \<Rightarrow> and_then (double_to_int x) (\<lambda>n. Inr (config\<lparr>height := n\<rparr>))
      | _ \<Rightarrow> Inr (config\<lparr>height := 512\<rparr>))"

text \<open>
  The argument \<open>parsed\<close> is \<open>None\<close> when the file cannot be opened, and otherwise the value
  that the parser has left in \<^verbatim>\<open>v\<close>.
\<close>

definition LoadRenderConfig ::
  "arith \<Rightarrow> RenderConfig \<Rightarrow> json option \<Rightarrow> config_fault + (bool \<times> RenderConfig)" where
  "LoadRenderConfig A config parsed =
     (case parsed of
        None \<Rightarrow> Inr (False, config)
      | Some (JObject obj) \<Rightarrow>
          and_then (read_max_points obj (read_scene_scale A obj (read_las_filename obj config))) (\<lambda>c1.
          and_then (read_vec3 A obj ''eye'' (Fin 0, Fin 0, Fin 5)) (\<lambda>e.
          and_then (read_vec3 A obj ''up'' (Fin 0, Fin 1, Fin 0)) (\<lambda>u.
          and_then (read_vec3 A obj ''look_at'' (Fin 0, Fin 0, Fin 0)) (\<lambda>l.
          and_then (read_fov A obj (c1\<lparr>eye := e, up := u, look_at := l\<rparr>)) (\<lambda>(c2, obj').
          and_then (read_width obj' c2) (\<lambda>c3.
          and_then (read_height obj' c3) (\<lambda>c4. Inr (True, c4))))))))
      | Some _ \<Rightarrow> Inr (False, config))"

section \<open>Notions used in the statements\<close>

text \<open>The comparison \<open>x \<le> y\<close> of C on two floating-point values.\<close>

definition fle :: "fp \<Rightarrow> fp \<Rightarrow> bool" where
  "fle x y = (flt x y \<or> feq x y)"

text \<open>
  A point of the ray lies on the sphere: \<open>|org + s * dir - center|\<^sup>2 = radius\<^sup>2\<close>, over
  the reals.
\<close>

fun on_sphere :: "float3 \<Rightarrow> float3 \<Rightarrow> float3 \<Rightarrow> fp \<Rightarrow> real \<Rightarrow> bool" where
  "on_sphere (o0, o1, o2) (d0, d1, d2) (c0, c1, c2) radius s =
     ((valof o0 + s * valof d0 - valof c0)\<^sup>2 + (valof o1 + s * valof d1 - valof c1)\<^sup>2
        + (valof o2 + s * valof d2 - valof c2)\<^sup>2 = (valof radius)\<^sup>2)"

text \<open>The partial sums of the series of the arc tangent, used to bound \<open>\<pi>\<close>.\<close>

definition atn_sum :: "real \<Rightarrow> nat \<Rightarrow> real" where
  "atn_sum x n = (\<Sum>i<n. (-1)^i * (1 / real (i * 2 + 1) * x ^ (i * 2 + 1)))"

text \<open>
  The values that \<^verbatim>\<open>Intersect\<close> computes for a sphere, as functions of ray and sphere: the
  discriminant, the two roots before they are put in order, the larger and the smaller
  of the two (\<^verbatim>\<open>t1\<close> and \<^verbatim>\<open>t0\<close> after the swap), and the root that is compared with
  \<^verbatim>\<open>*t_inout\<close>.
\<close>

definition disc_of :: "arith \<Rightarrow> float3 \<Rightarrow> float3 \<Rightarrow> float3 \<Rightarrow> fp \<Rightarrow> fp" where
  "disc_of A rorg rdir center radius =
     (let oc = vsub A rorg center;
          a = quad_a A rdir;
          b = quad_b A rdir oc;
          c = quad_c A oc radius
      in quad_disc A a b c)"

definition roots_of :: "arith \<Rightarrow> float3 \<Rightarrow> float3 \<Rightarrow> float3 \<Rightarrow> fp \<Rightarrow> fp \<times> fp" where
  "roots_of A rorg rdir center radius =
     (let oc = vsub A rorg center;
          a = quad_a A rdir;
          b = quad_b A rdir oc;
          c = quad_c A oc radius
      in quad_roots A a b c (quad_disc A a b c))"

definition far_root :: "fp \<times> fp \<Rightarrow> fp" where
  "far_root r = (if fgt (fst r) (snd r) then fst r else snd r)"

definition near_root :: "fp \<times> fp \<Rightarrow> fp" where
  "near_root r = (if fgt (fst r) (snd r) then snd r else fst r)"

definition candidate :: "fp \<times> fp \<Rightarrow> fp" where
  "candidate r = (if flt (near_root r) (Fin 0) then far_root r else near_root r)"

text \<open>The primitive id passes the range test at the head of \<^verbatim>\<open>Intersect\<close>.\<close>

definition in_range :: "SphereIntersector \<Rightarrow> 32 word \<Rightarrow> bool" where
  "in_range S i =
     (fst (prim_ids_range (trace_options_m S)) \<le> i \<and> i < snd (prim_ids_range (trace_options_m S)))"

fun nan3 :: "float3 \<Rightarrow> bool" where
  "nan3 (a0, a1, a2) = (a0 = NaN \<or> a1 = NaN \<or> a2 = NaN)"

section \<open>Scenes\<close>

text \<open>
  The constructor of \<^verbatim>\<open>SphereIntersector\<close> stores the two pointers; the members it leaves
  uninitialised are zero here, and the trace options are the default ones.
\<close>

definition new_intersector :: "fp list \<Rightarrow> fp list \<Rightarrow> SphereIntersector" where
  "new_intersector vs rs =
     \<lparr>vertices_m = vs, radiuss_m = rs,
      ray_org_m = (Fin 0, Fin 0, Fin 0), ray_dir_m = (Fin 0, Fin 0, Fin 0),
      trace_options_m = default_trace_options (of_nat (length rs)),
      t_m = Fin 0, prim_id_m = 0\<rparr>"

definition new_intersection :: SphereIntersection where
  "new_intersection = \<lparr>isect_u = Fin 0, isect_v = Fin 0, isect_t = Fin 0, isect_prim_id = 0\<rparr>"

text \<open>A sphere of radius one at the origin (scenario 4 of the spec).\<close>

definition unit_sphere :: SphereIntersector where
  "unit_sphere = new_intersector [Fin 0, Fin 0, Fin 0] [Fin 1]"

text \<open>The ray of scenario 4: from \<open>(0, 0, 3)\<close> down the z axis.\<close>

definition ray_down :: Ray where
  "ray_down = \<lparr>org = (Fin 0, Fin 0, Fin 3), dir = (Fin 0, Fin 0, Fin (- 1)),
               min_t = Fin 0, max_t = Fin (2 ^ 100)\<rparr>"

text \<open>The same ray with \<open>min_t = 5/2\<close>.\<close>

definition ray_late :: Ray where
  "ray_late = ray_down\<lparr>min_t := Fin (5 / 2)\<rparr>"

text \<open>
  A ray down the z axis that passes the unit sphere at the distance \<open>1 + 2\<^sup>-\<^sup>2\<^sup>3\<close> from its
  centre, and so outside of it; the coordinates are \<^verbatim>\<open>float\<close> values.
\<close>

definition ray_grazing :: Ray where
  "ray_grazing = \<lparr>org = (Fin (1 + 1 / 2 ^ 23), Fin 0, Fin 3), dir = (Fin 0, Fin 0, Fin (- 1)),
                  min_t = Fin 0, max_t = Fin (2 ^ 100)\<rparr>"

text \<open>A sphere whose centre has a NaN coordinate.\<close>

definition nan_sphere :: SphereIntersector where
  "nan_sphere = new_intersector [NaN, Fin 0, Fin 0] [Fin 1]"

text \<open>Two equal spheres of radius one at the origin, with ids 0 and 1.\<close>

definition twin_spheres :: SphereIntersector where
  "twin_spheres = new_intersector [Fin 0, Fin 0, Fin 0, Fin 0, Fin 0, Fin 0] [Fin 1, Fin 1]"

text \<open>A sphere of radius zero at the origin.\<close>

definition point_sphere :: SphereIntersector where
  "point_sphere = new_intersector [Fin 0, Fin 0, Fin 0] [Fin 0]"

text \<open>
  Two rays down the z axis that pass the origin at the distances \<open>2\<^sup>-\<^sup>1\<^sup>3\<close> and \<open>1\<close>.
\<close>

definition ray_beside :: Ray where
  "ray_beside = \<lparr>org = (Fin (1 / 2 ^ 13), Fin 0, Fin 3), dir = (Fin 0, Fin 0, Fin (- 1)),
                 min_t = Fin 0, max_t = Fin (2 ^ 100)\<rparr>"

definition ray_apart :: Ray where
  "ray_apart = \<lparr>org = (Fin 1, Fin 0, Fin 3), dir = (Fin 0, Fin 0, Fin (- 1)),
                min_t = Fin 0, max_t = Fin (2 ^ 100)\<rparr>"

text \<open>A sphere at the origin whose radius is NaN.\<close>

definition nan_radius_sphere :: SphereIntersector where
  "nan_radius_sphere = new_intersector [Fin 0, Fin 0, Fin 0] [NaN]"

text \<open>
  A stand-in for \<^verbatim>\<open>BVHAccel::Build\<close> that succeeds and counts its calls in the structure, and
  a scene without particles.
\<close>

definition counting_build :: "nat build_fn" where
  "counting_build n geom pred opts accel = (True, Suc accel)"

definition no_particles :: Particles where
  "no_particles = \<lparr>vertices = [], colors = [], radiuss = []\<rparr>"

text \<open>
  A configuration before it is loaded, and two JSON objects: one with a \<^verbatim>\<open>fov\<close> of 60.5
  and no \<^verbatim>\<open>width\<close>, one with the same \<^verbatim>\<open>fov\<close> and a \<^verbatim>\<open>width\<close> of 640.
\<close>

definition blank_config :: RenderConfig where
  "blank_config = \<lparr>las_filename = [], scene_scale = Fin 0, max_points = 0,
     eye = (Fin 0, Fin 0, Fin 0), up = (Fin 0, Fin 0, Fin 0), look_at = (Fin 0, Fin 0, Fin 0),
     fov = Fin 0, width = 0, height = 0\<rparr>"

definition fov_only :: "string \<Rightarrow> json option" where
  "fov_only = [''fov'' \<mapsto> JNumber (Fin (121 / 2))]"

definition fov_and_width :: "string \<Rightarrow> json option" where
  "fov_and_width = [''fov'' \<mapsto> JNumber (Fin (121 / 2)), ''width'' \<mapsto> JNumber (Fin 640)]"

section \<open>Evaluation\<close>

text \<open>
  The equations with which a concrete rounding and a concrete operation are computed.
\<close>

lemmas rnd_eval = binary32_def binary64_def round_to_def ilog2_def compute_floorlog rne_def pow2_def
  Let_def inf_of_def zero_of_def

lemmas op_eval = addf_def subf_def mulf_def divf_def addd_def subd_def muld_def divd_def sqrtd_def
  to_float_def fadd_def fsub_def fmul_def fdiv_def fgt_def

lemmas ieee_eval = ieee_def op_eval rnd_eval

subsection \<open>The rounding is to nearest\<close>

text \<open>
  \<open>ilog2\<close> is the exponent of its argument, \<open>rne\<close> rounds to a nearest integer and to the
  even one at a tie, and a finite result of \<open>round_to\<close> is within half a unit in the last
  place of the exact value, with its sign.
\<close>

lemma pow2_pos: "0 < pow2 e"
  by (simp add: pow2_def)

lemma pow2_nat: "pow2 (int n) = 2 ^ n"
  by (simp add: pow2_def)

lemma pow2_neg_nat: "pow2 (- int n) = 1 / 2 ^ n"
  by (cases "n = 0") (simp_all add: pow2_def)

lemma ilog2_bounds:
  assumes "0 < x"
  shows "pow2 (ilog2 x) \<le> x \<and> x < pow2 (ilog2 x + 1)"
proof (cases "1 \<le> x")
  case True
  define n where "n = nat \<lfloor>x\<rfloor>"
  define k where "k = floorlog 2 n"
  have n1: "1 \<le> n"
    using True by (simp add: n_def le_nat_floor)
  have n2: "real n \<le> x" "x < real n + 1"
    using True by (simp_all add: n_def)
  have b: "2 ^ (k - 1) \<le> n" "n < 2 ^ k"
    using floorlog_bounds[of n 2] n1 by (simp_all add: k_def)
  have kpos: "1 \<le> k"
    using n1 by (simp add: k_def floorlog_def)
  have il: "ilog2 x = int (k - 1)"
    using True kpos by (simp add: ilog2_def k_def n_def)
  have r1: "(2 :: real) ^ (k - 1) \<le> real n"
    using of_nat_mono[OF b(1), where 'a = real] by simp
  have r2: "real n + 1 \<le> 2 ^ k"
    using of_nat_mono[of "Suc n" "2 ^ k", where 'a = real] b(2) by simp
  have lo: "pow2 (ilog2 x) \<le> x"
    unfolding il pow2_nat using r1 n2(1) by linarith
  have "pow2 (ilog2 x + 1) = 2 ^ k"
  proof -
    have "ilog2 x + 1 = int k" using kpos by (simp add: il)
    then show ?thesis by (simp only: pow2_nat)
  qed
  then have hi: "x < pow2 (ilog2 x + 1)"
    using n2(2) r2 by linarith
  from lo hi show ?thesis ..
next
  case False
  define y where "y = 1 / x"
  define n where "n = nat (\<lceil>y\<rceil> - 1)"
  define k where "k = floorlog 2 n"
  have y: "1 < y" using False assms by (simp add: y_def)
  have c: "2 \<le> \<lceil>y\<rceil>" using y by linarith
  have n1: "1 \<le> n"
    unfolding n_def using c by arith
  have "0 \<le> \<lceil>y\<rceil> - 1"
    using c by arith
  then have "real n = of_int (\<lceil>y\<rceil> - 1)"
    unfolding n_def by (rule of_nat_nat)
  then have rn: "real n = of_int \<lceil>y\<rceil> - 1"
    by simp
  have n2: "real n < y" "y \<le> real n + 1"
    unfolding rn by linarith+
  have b: "2 ^ (k - 1) \<le> n" "n < 2 ^ k"
    using floorlog_bounds[of n 2] n1 by (simp_all add: k_def)
  have kpos: "1 \<le> k"
    using n1 by (simp add: k_def floorlog_def)
  have il: "ilog2 x = - int k"
    using False by (simp add: ilog2_def k_def n_def y_def)
  have r1: "(2 :: real) ^ (k - 1) \<le> real n"
    using of_nat_mono[OF b(1), where 'a = real] by simp
  have r2: "real n + 1 \<le> 2 ^ k"
    using of_nat_mono[of "Suc n" "2 ^ k", where 'a = real] b(2) by simp
  have "y \<le> 2 ^ k" using n2(2) r2 by linarith
  then have "1 / 2 ^ k \<le> x"
    using assms by (simp add: y_def field_simps)
  then have lo: "pow2 (ilog2 x) \<le> x"
    by (simp add: il pow2_neg_nat)
  have "2 ^ (k - 1) < y" using n2(1) r1 by linarith
  then have "x < 1 / 2 ^ (k - 1)"
    using assms by (simp add: y_def field_simps)
  moreover have "pow2 (ilog2 x + 1) = 1 / 2 ^ (k - 1)"
  proof -
    have "ilog2 x + 1 = - int (k - 1)" using kpos by (simp add: il)
    then show ?thesis by (simp only: pow2_neg_nat)
  qed
  ultimately have hi: "x < pow2 (ilog2 x + 1)" by simp
  from lo hi show ?thesis ..
qed

lemma rne_nearest: "\<bar>of_int (rne y) - y\<bar> \<le> 1 / 2"
  by (simp add: rne_def Let_def)

lemma rne_of_int [simp]: "rne (of_int n) = n"
  by (simp add: rne_def Let_def)

lemma rne_tie_even: "even (rne (of_int n + 1 / 2))"
proof -
  have "\<lfloor>of_int n + (1 / 2 :: real)\<rfloor> = n"
    by (rule floor_unique) simp_all
  then show ?thesis
    by (simp add: rne_def Let_def)
qed

lemma round_to_nearest:
  assumes "round_to p emax x = Fin y"
  shows "\<bar>y - x\<bar> \<le> pow2 (max (ilog2 \<bar>x\<bar>) (1 - emax) - (int p - 1)) / 2"
proof -
  define e where "e = max (ilog2 \<bar>x\<bar>) (1 - emax) - (int p - 1)"
  define m where "m = rne (\<bar>x\<bar> / pow2 e)"
  have q: "0 < pow2 e" by (rule pow2_pos)
  have "\<bar>of_int m - \<bar>x\<bar> / pow2 e\<bar> \<le> 1 / 2"
    unfolding m_def by (rule rne_nearest)
  then have "\<bar>of_int m - \<bar>x\<bar> / pow2 e\<bar> * pow2 e \<le> 1 / 2 * pow2 e"
    using q by (intro mult_right_mono) simp_all
  moreover have "\<bar>of_int m - \<bar>x\<bar> / pow2 e\<bar> * pow2 e = \<bar>of_int m * pow2 e - \<bar>x\<bar>\<bar>"
  proof -
    have "\<bar>of_int m - \<bar>x\<bar> / pow2 e\<bar> * pow2 e = \<bar>(of_int m - \<bar>x\<bar> / pow2 e) * pow2 e\<bar>"
      using q by (simp add: abs_mult)
    also have "(of_int m - \<bar>x\<bar> / pow2 e) * pow2 e = of_int m * pow2 e - \<bar>x\<bar>"
      using q by (simp add: field_simps)
    finally show ?thesis .
  qed
  ultimately have d: "\<bar>of_int m * pow2 e - \<bar>x\<bar>\<bar> \<le> pow2 e / 2" by simp
  have "y = (if x < 0 then - (of_int m * pow2 e) else of_int m * pow2 e)"
    using assms unfolding round_to_def Let_def e_def[symmetric] m_def[symmetric]
    by (auto simp: inf_of_def zero_of_def split: if_splits)
  then have "\<bar>y - x\<bar> = \<bar>of_int m * pow2 e - \<bar>x\<bar>\<bar>"
    by (auto simp: abs_if)
  then show ?thesis using d by (simp add: e_def)
qed

lemma round_to_sign:
  assumes "round_to p emax x = Fin y"
  shows "(x < 0 \<longrightarrow> y \<le> 0) \<and> (0 < x \<longrightarrow> 0 \<le> y)"
proof -
  define e where "e = max (ilog2 \<bar>x\<bar>) (1 - emax) - (int p - 1)"
  define m where "m = rne (\<bar>x\<bar> / pow2 e)"
  have q: "0 < pow2 e" by (rule pow2_pos)
  have "0 \<le> \<bar>x\<bar> / pow2 e" using q by simp
  then have "0 \<le> \<lfloor>\<bar>x\<bar> / pow2 e\<rfloor>" by simp
  then have m0: "0 \<le> m"
    unfolding m_def rne_def Let_def by auto
  have y: "y = (if x < 0 then - (of_int m * pow2 e) else of_int m * pow2 e) \<or> y = 0"
    using assms unfolding round_to_def Let_def e_def[symmetric] m_def[symmetric]
    by (auto simp: inf_of_def zero_of_def split: if_splits)
  have "0 \<le> of_int m * pow2 e"
    using m0 q by simp
  then show ?thesis using y by auto
qed

text \<open>
  A value that the rounding returns is a value of the format: rounding it again returns
  it.
\<close>

lemma pow2_powi: "pow2 e = 2 powi e"
  by (simp add: pow2_def power_int_def inverse_eq_divide power_one_over)

lemma pow2_add: "pow2 (a + b) = pow2 a * pow2 b"
  by (simp add: pow2_powi power_int_add)

lemma pow2_less_iff: "pow2 a < pow2 b \<longleftrightarrow> a < b"
proof
  assume l: "pow2 a < pow2 b"
  show "a < b"
  proof (rule ccontr)
    assume "\<not> a < b"
    then have "b \<le> a" by simp
    then have "(2 :: real) powi b \<le> 2 powi a"
      by (rule power_int_increasing) simp
    then show False using l by (simp add: pow2_powi)
  qed
next
  assume "a < b"
  then have "(2 :: real) powi a < 2 powi b"
    by (rule power_int_strict_increasing) simp
  then show "pow2 a < pow2 b" by (simp only: pow2_powi)
qed

lemma pow2_le_iff: "pow2 a \<le> pow2 b \<longleftrightarrow> a \<le> b"
  using pow2_less_iff[of b a] by (simp only: not_less[symmetric])

lemma pow2_diff: "pow2 a / pow2 b = pow2 (a - b)"
proof -
  have "pow2 a = pow2 (a - b) * pow2 b"
    using pow2_add[of "a - b" b] by simp
  then show ?thesis
    using pow2_pos[of b] by simp
qed

lemma ilog2_unique:
  assumes "pow2 k \<le> x" and "x < pow2 (k + 1)"
  shows "ilog2 x = k"
proof -
  have x: "0 < x"
    using pow2_pos[of k] assms(1) by linarith
  note b = ilog2_bounds[OF x]
  have "pow2 (ilog2 x) < pow2 (k + 1)"
    using b assms(2) by linarith
  then have "ilog2 x < k + 1"
    by (simp only: pow2_less_iff)
  moreover have "pow2 k < pow2 (ilog2 x + 1)"
    using b assms(1) by linarith
  then have "k < ilog2 x + 1"
    by (simp only: pow2_less_iff)
  ultimately show ?thesis by linarith
qed

lemma ilog2_less:
  assumes "0 < x" and "x < pow2 k"
  shows "ilog2 x < k"
proof -
  have "pow2 (ilog2 x) < pow2 k"
    using ilog2_bounds[OF assms(1)] assms(2) by linarith
  then show ?thesis
    by (simp only: pow2_less_iff)
qed

lemma rne_le:
  assumes "y < of_int n"
  shows "rne y \<le> n"
proof -
  have "of_int (rne y) < (of_int n :: real) + 1 / 2"
    using rne_nearest[of y] assms by linarith
  then have "of_int (rne y) < (of_int (n + 1) :: real)"
    by simp
  then have "rne y < n + 1"
    by (simp only: of_int_less_iff)
  then show ?thesis by simp
qed

lemma rne_ge:
  assumes "of_int n \<le> y"
  shows "n \<le> rne y"
proof -
  have "(of_int n :: real) - 1 / 2 \<le> of_int (rne y)"
    using rne_nearest[of y] assms by linarith
  then have "(of_int (n - 1) :: real) < of_int (rne y)"
    by simp
  then have "n - 1 < rne y"
    by (simp only: of_int_less_iff)
  then show ?thesis by simp
qed

lemma round_to_idem:
  assumes r: "round_to p emax x = Fin w" and w: "w \<noteq> 0" and p: "0 < p"
  shows "round_to p emax w = Fin w"
proof -
  define E where "E = max (ilog2 \<bar>x\<bar>) (1 - emax)"
  define e where "e = E - (int p - 1)"
  define m where "m = rne (\<bar>x\<bar> / pow2 e)"
  define y where "y = of_int m * pow2 e"
  have q: "0 < pow2 e" by (rule pow2_pos)
  have "0 \<le> \<bar>x\<bar> / pow2 e" using q by simp
  then have m0: "0 \<le> m"
    unfolding m_def by (intro rne_ge) simp
  have res: "round_to p emax x =
      (if pow2 (emax + 1) \<le> y then inf_of (x < 0)
       else if m = 0 then zero_of (x < 0)
       else Fin (if x < 0 then - y else y))"
    unfolding round_to_def Let_def y_def m_def e_def E_def ..
  have no: "\<not> pow2 (emax + 1) \<le> y" and mz: "m \<noteq> 0"
    and wy: "w = (if x < 0 then - y else y)"
    using r w unfolding res by (auto simp: inf_of_def zero_of_def split: if_splits)
  have m1: "1 \<le> m" using m0 mz by simp
  have ypos: "0 < y"
    unfolding y_def using m1 q by simp
  have aw: "\<bar>w\<bar> = y" and sw: "(w < 0) = (x < 0)"
    using wy ypos by (auto split: if_splits)
  have xz: "x \<noteq> 0"
  proof
    assume "x = 0"
    then have "m = rne (of_int 0)" by (simp add: m_def)
    then show False using mz by (simp only: rne_of_int)
  qed
  then have ax: "0 < \<bar>x\<bar>" by simp
  note bx = ilog2_bounds[OF ax]
  have Ege: "1 - emax \<le> E" and EL: "ilog2 \<bar>x\<bar> \<le> E"
    by (simp_all add: E_def)
  have pe: "int p + e = E + 1"
    by (simp add: e_def)
  have "\<bar>x\<bar> < pow2 (E + 1)"
  proof -
    have "pow2 (ilog2 \<bar>x\<bar> + 1) \<le> pow2 (E + 1)"
      using EL by (simp only: pow2_le_iff)
    then show ?thesis using bx by linarith
  qed
  then have "\<bar>x\<bar> < pow2 (int p) * pow2 e"
    by (simp only: pow2_add[symmetric] pe)
  then have "\<bar>x\<bar> / pow2 e < pow2 (int p)"
    using q by (simp add: field_simps)
  then have "\<bar>x\<bar> / pow2 e < of_int (2 ^ p)"
    by (simp add: pow2_nat)
  then have mle: "m \<le> 2 ^ p"
    unfolding m_def by (rule rne_le)
  have goal: "round_to p emax w = Fin w"
    if e': "max (ilog2 y) (1 - emax) - (int p - 1) = e'"
      and m': "rne (y / pow2 e') = m'"
      and y': "of_int m' * pow2 e' = y"
    for e' m'
  proof -
    have mz': "m' \<noteq> 0" using y' ypos by auto
    have ww: "(if w < 0 then - y else y) = w"
      unfolding sw using wy by simp
    have "round_to p emax w =
        (if pow2 (emax + 1) \<le> y then inf_of (w < 0)
         else if m' = 0 then zero_of (w < 0)
         else Fin (if w < 0 then - y else y))"
      unfolding round_to_def Let_def aw e' m' y' ..
    then show ?thesis
      using no mz' by (simp only: if_False ww)
  qed
  show ?thesis
  proof (cases "m = 2 ^ p")
    case True
    have yE: "y = pow2 (E + 1)"
      unfolding y_def True using pow2_add[of "int p" e] by (simp add: pow2_nat pe)
    have "ilog2 y = E + 1"
      by (rule ilog2_unique) (simp_all add: yE pow2_less_iff)
    then have e1: "max (ilog2 y) (1 - emax) - (int p - 1) = e + 1"
      using Ege by (simp add: e_def)
    have "y / pow2 (e + 1) = pow2 (E + 1 - (e + 1))"
      unfolding yE by (rule pow2_diff)
    also have "E + 1 - (e + 1) = int (p - 1)"
      using p by (simp add: e_def)
    finally have "y / pow2 (e + 1) = of_int (2 ^ (p - 1))"
      by (simp add: pow2_nat)
    then have m': "rne (y / pow2 (e + 1)) = 2 ^ (p - 1)"
      by (simp only: rne_of_int)
    have "of_int (2 ^ (p - 1)) * pow2 (e + 1) = pow2 (int (p - 1)) * pow2 (e + 1)"
      by (simp add: pow2_nat)
    also have "\<dots> = pow2 (int (p - 1) + (e + 1))"
      by (simp only: pow2_add)
    also have "int (p - 1) + (e + 1) = E + 1"
      using p by (simp add: e_def)
    finally have y': "of_int (2 ^ (p - 1)) * pow2 (e + 1) = y"
      by (simp add: yE)
    from e1 m' y' show ?thesis by (rule goal)
  next
    case False
    then have ml: "m < 2 ^ p" using mle by simp
    then have "(of_int m :: real) < of_int (2 ^ p)"
      by (simp only: of_int_less_iff)
    then have "(of_int m :: real) < pow2 (int p)"
      by (simp add: pow2_nat)
    then have "y < pow2 (int p) * pow2 e"
      unfolding y_def using q by simp
    then have yu: "y < pow2 (E + 1)"
      by (simp only: pow2_add[symmetric] pe)
    have "max (ilog2 y) (1 - emax) = E"
    proof (cases "1 - emax \<le> ilog2 \<bar>x\<bar>")
      case True
      then have EL: "E = ilog2 \<bar>x\<bar>" by (simp add: E_def)
      have "pow2 E \<le> \<bar>x\<bar>" using bx by (simp add: EL)
      moreover have "pow2 E = pow2 (int (p - 1)) * pow2 e"
      proof -
        have "E = int (p - 1) + e" using p by (simp add: e_def)
        then show ?thesis by (simp only: pow2_add)
      qed
      ultimately have "pow2 (int (p - 1)) \<le> \<bar>x\<bar> / pow2 e"
        using q by (simp add: field_simps)
      then have "of_int (2 ^ (p - 1)) \<le> \<bar>x\<bar> / pow2 e"
        by (simp add: pow2_nat)
      then have "2 ^ (p - 1) \<le> m"
        unfolding m_def by (rule rne_ge)
      then have "(of_int (2 ^ (p - 1)) :: real) \<le> of_int m"
        by (simp only: of_int_le_iff)
      then have "pow2 (int (p - 1)) \<le> of_int m"
        by (simp add: pow2_nat)
      then have "pow2 (int (p - 1)) * pow2 e \<le> y"
        unfolding y_def using q by simp
      then have "pow2 E \<le> y"
        using \<open>pow2 E = pow2 (int (p - 1)) * pow2 e\<close> by simp
      then have "ilog2 y = E"
        using yu by (rule ilog2_unique)
      then show ?thesis using Ege by simp
    next
      case False
      then have E1: "E = 1 - emax" by (simp add: E_def)
      have "ilog2 y < E + 1"
        using ypos yu by (rule ilog2_less)
      then show ?thesis by (simp add: E1)
    qed
    then have e1: "max (ilog2 y) (1 - emax) - (int p - 1) = e"
      by (simp add: e_def)
    have "y / pow2 e = of_int m"
      unfolding y_def using q by simp
    then have m': "rne (y / pow2 e) = m"
      by (simp only: rne_of_int)
    have y': "of_int m * pow2 e = y"
      by (simp add: y_def)
    from e1 m' y' show ?thesis by (rule goal)
  qed
qed

lemma binary32_idem: "binary32 x = Fin w \<Longrightarrow> w \<noteq> 0 \<Longrightarrow> binary32 w = Fin w"
  unfolding binary32_def by (rule round_to_idem) simp_all

lemma binary64_idem: "binary64 x = Fin w \<Longrightarrow> w \<noteq> 0 \<Longrightarrow> binary64 w = Fin w"
  unfolding binary64_def by (rule round_to_idem) simp_all

section \<open>The structure of Intersect\<close>

text \<open>
  A primitive id outside the range is rejected before anything is read; for an id in the
  range whose sphere can be read, the result is decided by the discriminant and by the
  two roots.
\<close>

lemma Intersect_out_of_range:
  "\<not> in_range S i \<Longrightarrow> Intersect A S t i = Inr (False, t, S)"
  by (auto simp: Intersect_def in_range_def)

lemma Intersect_in_range:
  assumes "in_range S i"
    and "load3 (vertices_m S) (unat (3 * i)) = Inr center"
    and "load (radiuss_m S) (unat i) = Inr radius"
  shows "Intersect A S t i =
     (if flt (disc_of A (ray_org_m S) (ray_dir_m S) center radius) (Fin 0) then Inr (False, t, S)
      else if flt (far_root (roots_of A (ray_org_m S) (ray_dir_m S) center radius)) (Fin 0)
        then Inr (False, t, S)
      else if fgt (candidate (roots_of A (ray_org_m S) (ray_dir_m S) center radius)) t
        then Inr (False, t, S)
      else Inr (True, candidate (roots_of A (ray_org_m S) (ray_dir_m S) center radius), S))"
proof -
  have r: "\<not> (i < fst (prim_ids_range (trace_options_m S)) \<or> snd (prim_ids_range (trace_options_m S)) \<le> i)"
    using assms(1) by (auto simp: in_range_def)
  show ?thesis
    unfolding Intersect_def disc_of_def roots_of_def Let_def far_root_def near_root_def candidate_def
    by (simp only: r assms(2,3) if_False sum.case split_beta fst_conv snd_conv if_distrib[of fst] if_distrib[of snd] cong: if_cong)
       
qed

lemma Intersect_load3_fails:
  "in_range S i \<Longrightarrow> load3 (vertices_m S) (unat (3 * i)) = Inl e \<Longrightarrow> Intersect A S t i = Inl e"
  by (auto simp: Intersect_def in_range_def)

lemma Intersect_load_fails:
  "in_range S i \<Longrightarrow> load3 (vertices_m S) (unat (3 * i)) = Inr center \<Longrightarrow>
   load (radiuss_m S) (unat i) = Inl e \<Longrightarrow> Intersect A S t i = Inl e"
  by (auto simp: Intersect_def in_range_def)

lemma Intersect_returns:
  assumes "Intersect A S t i = Inr (hit, t', S')"
  shows "S' = S \<and> (hit \<or> t' = t)"
proof (cases "in_range S i")
  case False
  with assms show ?thesis by (simp add: Intersect_out_of_range)
next
  case True
  show ?thesis
  proof (cases "load3 (vertices_m S) (unat (3 * i))")
    case (Inl e)
    with True assms show ?thesis by (simp add: Intersect_load3_fails)
  next
    case c: (Inr center)
    show ?thesis
    proof (cases "load (radiuss_m S) (unat i)")
      case (Inl e)
      with True c assms show ?thesis by (simp add: Intersect_load_fails)
    next
      case (Inr radius)
      from assms show ?thesis
        unfolding Intersect_in_range[OF True c Inr] by (auto split: if_splits)
    qed
  qed
qed

lemma Intersect_hitD:
  assumes "Intersect A S t i = Inr (True, t', S')"
  shows "S' = S \<and> in_range S i \<and>
    (\<exists>center radius. load3 (vertices_m S) (unat (3 * i)) = Inr center \<and>
       load (radiuss_m S) (unat i) = Inr radius \<and>
       \<not> flt (disc_of A (ray_org_m S) (ray_dir_m S) center radius) (Fin 0) \<and>
       \<not> flt (far_root (roots_of A (ray_org_m S) (ray_dir_m S) center radius)) (Fin 0) \<and>
       \<not> fgt (candidate (roots_of A (ray_org_m S) (ray_dir_m S) center radius)) t \<and>
       t' = candidate (roots_of A (ray_org_m S) (ray_dir_m S) center radius))"
proof (cases "in_range S i")
  case False
  with assms show ?thesis by (simp add: Intersect_out_of_range)
next
  case True
  show ?thesis
  proof (cases "load3 (vertices_m S) (unat (3 * i))")
    case (Inl e)
    with True assms show ?thesis by (simp add: Intersect_load3_fails)
  next
    case c: (Inr center)
    show ?thesis
    proof (cases "load (radiuss_m S) (unat i)")
      case (Inl e)
      with True c assms show ?thesis by (simp add: Intersect_load_fails)
    next
      case (Inr radius)
      have "Intersect A S t i = Inr (True, t', S')" by fact
      then show ?thesis
        unfolding Intersect_in_range[OF True c Inr] using True c Inr by (auto split: if_splits)
    qed
  qed
qed

text \<open>The members that \<^verbatim>\<open>PrepareTraversal\<close> and \<^verbatim>\<open>Update\<close> write.\<close>

lemma prepared_fields [simp]:
  "ray_org_m (PrepareTraversal S ray opts) = org ray"
  "ray_dir_m (PrepareTraversal S ray opts) = dir ray"
  "trace_options_m (PrepareTraversal S ray opts) = opts"
  "vertices_m (PrepareTraversal S ray opts) = vertices_m S"
  "radiuss_m (PrepareTraversal S ray opts) = radiuss_m S"
  by (simp_all add: PrepareTraversal_def)

lemma Update_fields [simp]:
  "ray_org_m (Update S t i) = ray_org_m S"
  "ray_dir_m (Update S t i) = ray_dir_m S"
  "trace_options_m (Update S t i) = trace_options_m S"
  "vertices_m (Update S t i) = vertices_m S"
  "radiuss_m (Update S t i) = radiuss_m S"
  "t_m (Update S t i) = t"
  "prim_id_m (Update S t i) = i"
  "Update (Update S t i) t' j = Update S t' j"
  by (simp_all add: Update_def)

lemma in_range_Update [simp]: "in_range (Update S t i) j = in_range S j"
  by (simp add: in_range_def)

lemma Intersect_Update:
  "Intersect A (Update S t i) t' j =
     (case Intersect A S t' j of Inl e \<Rightarrow> Inl e
      | Inr (h, t'', S') \<Rightarrow> Inr (h, t'', Update S' t i))"
proof (cases "in_range S j")
  case False
  then show ?thesis by (simp add: Intersect_out_of_range)
next
  case True
  show ?thesis
  proof (cases "load3 (vertices_m S) (unat (3 * j))")
    case (Inl e)
    with True show ?thesis by (simp add: Intersect_load3_fails)
  next
    case c: (Inr center)
    show ?thesis
    proof (cases "load (radiuss_m S) (unat j)")
      case (Inl e)
      with True c show ?thesis by (simp add: Intersect_load_fails)
    next
      case (Inr radius)
      have T: "in_range (Update S t i) j" using True by simp
      have c': "load3 (vertices_m (Update S t i)) (unat (3 * j)) = Inr center" using c by simp
      have l': "load (radiuss_m (Update S t i)) (unat j) = Inr radius" using Inr by simp
      show ?thesis
        unfolding Intersect_in_range[OF T c' l'] Intersect_in_range[OF True c Inr] by simp
    qed
  qed
qed

lemma scene_simps:
  "vertices_m (new_intersector vs rs) = vs"
  "radiuss_m (new_intersector vs rs) = rs"
  by (simp_all add: new_intersector_def)

subsection \<open>Comparisons and NaN\<close>

lemma flt_irrefl [simp]: "\<not> flt x x"
  by (cases x) simp_all

lemma flt_NaN_right [simp]: "\<not> flt x NaN"
  by (cases x) simp_all

lemma feq_NaN_right [simp]: "\<not> feq x NaN"
  by (cases x) simp_all

lemma fadd_NaN [simp]: "fadd r NaN y = NaN" "fadd r x NaN = NaN"
  by (simp_all add: fadd_def)

lemma fsub_NaN [simp]: "fsub r NaN y = NaN" "fsub r x NaN = NaN"
  by (simp_all add: fsub_def)

lemma fmul_NaN [simp]: "fmul r NaN y = NaN" "fmul r x NaN = NaN"
  by (simp_all add: fmul_def)

lemma fdiv_NaN [simp]: "fdiv r NaN y = NaN" "fdiv r x NaN = NaN"
  by (simp_all add: fdiv_def)

lemma fconv_NaN [simp]: "fconv r NaN = NaN"
  by simp

lemma candidate_not_negative:
  "\<not> flt (far_root r) (Fin 0) \<Longrightarrow> \<not> flt (candidate r) (Fin 0)"
  by (simp add: candidate_def)

lemma quad_roots_NaN: "quad_roots A a b c NaN = (NaN, NaN)"
  by (simp add: quad_roots_def sqrtd_def to_float_def divd_def subf_def addf_def divf_def)

lemma vdot_NaN:
  "nan3 x \<or> nan3 y \<Longrightarrow> vdot A x y = NaN"
  by (cases x; cases y) (auto simp: addf_def mulf_def)

lemma vsub_NaN:
  "nan3 x \<or> nan3 y \<Longrightarrow> nan3 (vsub A x y)"
  by (cases x; cases y) (auto simp: subf_def)

lemma quad_disc_NaN: "a = NaN \<or> b = NaN \<or> c = NaN \<Longrightarrow> quad_disc A a b c = NaN"
  by (auto simp: quad_disc_def to_float_def subd_def mulf_def muld_def)

lemma disc_of_NaN_input:
  assumes "nan3 rorg \<or> nan3 rdir \<or> nan3 center \<or> radius = NaN"
  shows "disc_of A rorg rdir center radius = NaN"
proof -
  consider "nan3 rdir" | "nan3 rorg \<or> nan3 center" | "radius = NaN"
    using assms by blast
  then have "quad_a A rdir = NaN \<or> quad_b A rdir (vsub A rorg center) = NaN
      \<or> quad_c A (vsub A rorg center) radius = NaN"
  proof cases
    case 1
    then show ?thesis by (simp add: quad_a_def vdot_NaN)
  next
    case 2
    then have "nan3 (vsub A rorg center)" by (rule vsub_NaN)
    then show ?thesis by (simp add: quad_b_def vdot_NaN to_float_def muld_def)
  next
    case 3
    then show ?thesis by (simp add: quad_c_def subf_def mulf_def)
  qed
  then show ?thesis
    unfolding disc_of_def Let_def by (rule quad_disc_NaN)
qed

lemma Intersect_NaN_disc:
  assumes "in_range S i"
    and "load3 (vertices_m S) (unat (3 * i)) = Inr center"
    and "load (radiuss_m S) (unat i) = Inr radius"
    and "disc_of A (ray_org_m S) (ray_dir_m S) center radius = NaN"
  shows "Intersect A S t i = Inr (True, NaN, S)"
proof -
  have "roots_of A (ray_org_m S) (ray_dir_m S) center radius = (NaN, NaN)"
    using assms(4) by (simp add: roots_of_def disc_of_def Let_def quad_roots_NaN)
  then show ?thesis
    unfolding Intersect_in_range[OF assms(1-3)] assms(4)
    by (simp add: far_root_def near_root_def candidate_def fgt_def)
qed

subsection \<open>The root that is chosen\<close>

text \<open>
  The root that is compared with \<^verbatim>\<open>*t_inout\<close> is one of the two computed roots, and it is
  not greater than a computed root that is not negative.
\<close>

lemma flt_asym: "flt x y \<Longrightarrow> \<not> flt y x"
  by (cases x; cases y) simp_all

lemma candidate_one_of: "candidate r = fst r \<or> candidate r = snd r"
  by (simp add: candidate_def near_root_def far_root_def)

lemma candidate_nearest:
  "\<not> flt (fst r) (Fin 0) \<Longrightarrow> \<not> fgt (candidate r) (fst r)"
  "\<not> flt (snd r) (Fin 0) \<Longrightarrow> \<not> fgt (candidate r) (snd r)"
  using flt_asym[of "snd r" "fst r"]
  by (auto simp: candidate_def near_root_def far_root_def fgt_def)

lemma far_root_negative:
  "flt (fst r) (Fin 0) \<Longrightarrow> flt (snd r) (Fin 0) \<Longrightarrow> flt (far_root r) (Fin 0)"
  by (simp add: far_root_def)

subsection \<open>A radius of zero\<close>

text \<open>
  For a radius of zero the product \<^verbatim>\<open>radius * radius\<close> is zero, and subtracting it from
  \<^verbatim>\<open>vdot(oc, oc)\<close> changes nothing, since that is a \<^verbatim>\<open>float\<close> already: the coefficient \<open>c\<close>
  is the computed square of the distance between the origin of the ray and the centre.
\<close>

lemma fadd_minus_zero:
  assumes "\<And>x w. r x = Fin w \<Longrightarrow> w \<noteq> 0 \<Longrightarrow> r w = Fin w"
  shows "fadd r (fadd r x y) NZero = fadd r x y"
proof (cases "fadd r x y")
  case (Fin w)
  show ?thesis
  proof (cases "w = 0")
    case True
    with Fin show ?thesis by (simp add: fadd_def zero_of_def)
  next
    case False
    have "r w = Fin w"
    proof -
      have "\<exists>s. r s = Fin w"
        using Fin False unfolding fadd_def Let_def zero_of_def
        by (auto split: if_splits)
      then show ?thesis using assms False by blast
    qed
    with Fin False show ?thesis by (simp add: fadd_def)
  qed
qed (simp_all add: fadd_def zero_of_def)

lemma mulf_zero_radius: "feq radius (Fin 0) \<Longrightarrow> mulf A radius radius = Fin 0"
  by (cases radius) (simp_all add: mulf_def fmul_def zero_of_def)

lemma quad_c_zero_radius:
  assumes "feq radius (Fin 0)"
  shows "quad_c ieee oc radius = vdot ieee oc oc"
proof -
  obtain a0 a1 a2 where oc: "oc = (a0, a1, a2)"
    by (cases oc) auto
  have i: "\<And>x w. binary32 x = Fin w \<Longrightarrow> w \<noteq> 0 \<Longrightarrow> binary32 w = Fin w"
    by (rule binary32_idem)
  show ?thesis
    unfolding quad_c_def mulf_zero_radius[OF assms] oc vdot.simps
    unfolding subf_def addf_def fsub_def fneg.simps ieee_def arith.simps
    using fadd_minus_zero[of binary32, OF i] by simp
qed

lemma zero_radius_disc:
  assumes "feq radius (Fin 0)"
  shows "disc_of ieee rorg rdir center radius =
     quad_disc ieee (quad_a ieee rdir) (quad_b ieee rdir (vsub ieee rorg center))
       (vdot ieee (vsub ieee rorg center) (vsub ieee rorg center))"
  by (simp add: disc_of_def Let_def quad_c_zero_radius[OF assms])

section \<open>The scenes under IEEE arithmetic\<close>

lemma disc_roots_eval:
  assumes "vsub A rorg center = oc" "quad_a A rdir = a" "quad_b A rdir oc = b"
    "quad_c A oc radius = c" "quad_disc A a b c = d" "quad_roots A a b c d = r"
  shows "disc_of A rorg rdir center radius = d" "roots_of A rorg rdir center radius = r"
  using assms by (simp_all add: disc_of_def roots_of_def Let_def)

lemma unit_sphere_down:
  "disc_of ieee (Fin 0, Fin 0, Fin 3) (Fin 0, Fin 0, Fin (- 1)) (Fin 0, Fin 0, Fin 0) (Fin 1) = Fin 4"
  "roots_of ieee (Fin 0, Fin 0, Fin 3) (Fin 0, Fin 0, Fin (- 1)) (Fin 0, Fin 0, Fin 0) (Fin 1) = (Fin 2, Fin 4)"
proof -
  have oc: "vsub ieee (Fin 0, Fin 0, Fin 3) (Fin 0, Fin 0, Fin 0) = (Fin 0, Fin 0, Fin 3)"
    by (simp add: ieee_eval)
  have a: "quad_a ieee (Fin 0, Fin 0, Fin (- 1)) = Fin 1"
    by (simp add: quad_a_def ieee_eval)
  have b: "quad_b ieee (Fin 0, Fin 0, Fin (- 1)) (Fin 0, Fin 0, Fin 3) = Fin (- 6)"
    by (simp add: quad_b_def ieee_eval)
  have c: "quad_c ieee (Fin 0, Fin 0, Fin 3) (Fin 1) = Fin 8"
    by (simp add: quad_c_def ieee_eval)
  have d: "quad_disc ieee (Fin 1) (Fin (- 6)) (Fin 8) = Fin 4"
    by (simp add: quad_disc_def ieee_eval)
  have r: "quad_roots ieee (Fin 1) (Fin (- 6)) (Fin 8) (Fin 4) = (Fin 2, Fin 4)"
    by (simp add: quad_roots_def ieee_eval)
  show "disc_of ieee (Fin 0, Fin 0, Fin 3) (Fin 0, Fin 0, Fin (- 1)) (Fin 0, Fin 0, Fin 0) (Fin 1) = Fin 4"
    by (rule disc_roots_eval(1)[OF oc a b c d r])
  show "roots_of ieee (Fin 0, Fin 0, Fin 3) (Fin 0, Fin 0, Fin (- 1)) (Fin 0, Fin 0, Fin 0) (Fin 1) = (Fin 2, Fin 4)"
    by (rule disc_roots_eval(2)[OF oc a b c d r])
qed

lemma unit_sphere_hit:
  "Intersect ieee (PrepareTraversal unit_sphere ray_down (default_trace_options 1)) (Fin (2 ^ 100)) 0
     = Inr (True, Fin 2, PrepareTraversal unit_sphere ray_down (default_trace_options 1))"
proof -
  let ?S = "PrepareTraversal unit_sphere ray_down (default_trace_options 1)"
  have r: "in_range ?S 0"
    by (simp add: in_range_def default_trace_options_def)
  have c: "load3 (vertices_m ?S) (unat (3 * (0 :: 32 word))) = Inr (Fin 0, Fin 0, Fin 0)"
    by (simp add: load3_def unit_sphere_def new_intersector_def)
  have l: "load (radiuss_m ?S) (unat (0 :: 32 word)) = Inr (Fin 1)"
    by (simp add: load_def unit_sphere_def new_intersector_def)
  show ?thesis
    unfolding Intersect_in_range[OF r c l]
    by (simp add: ray_down_def unit_sphere_down far_root_def near_root_def candidate_def fgt_def)
qed

lemma unit_sphere_miss:
  "Intersect ieee (PrepareTraversal unit_sphere ray_down (default_trace_options 1)) (Fin 1) 0
     = Inr (False, Fin 1, PrepareTraversal unit_sphere ray_down (default_trace_options 1))"
proof -
  let ?S = "PrepareTraversal unit_sphere ray_down (default_trace_options 1)"
  have r: "in_range ?S 0"
    by (simp add: in_range_def default_trace_options_def)
  have c: "load3 (vertices_m ?S) (unat (3 * (0 :: 32 word))) = Inr (Fin 0, Fin 0, Fin 0)"
    by (simp add: load3_def unit_sphere_def scene_simps)
  have l: "load (radiuss_m ?S) (unat (0 :: 32 word)) = Inr (Fin 1)"
    by (simp add: load_def unit_sphere_def scene_simps)
  show ?thesis
    unfolding Intersect_in_range[OF r c l]
    by (simp add: ray_down_def unit_sphere_down far_root_def near_root_def candidate_def fgt_def)
qed

lemma point_sphere_down:
  "disc_of ieee (Fin 0, Fin 0, Fin 3) (Fin 0, Fin 0, Fin (- 1)) (Fin 0, Fin 0, Fin 0) (Fin 0) = Fin 0"
  "roots_of ieee (Fin 0, Fin 0, Fin 3) (Fin 0, Fin 0, Fin (- 1)) (Fin 0, Fin 0, Fin 0) (Fin 0)
     = (Fin 3, Fin 3)"
proof -
  have oc: "vsub ieee (Fin 0, Fin 0, Fin 3) (Fin 0, Fin 0, Fin 0) = (Fin 0, Fin 0, Fin 3)"
    by (simp add: ieee_eval)
  have a: "quad_a ieee (Fin 0, Fin 0, Fin (- 1)) = Fin 1"
    by (simp add: quad_a_def ieee_eval)
  have b: "quad_b ieee (Fin 0, Fin 0, Fin (- 1)) (Fin 0, Fin 0, Fin 3) = Fin (- 6)"
    by (simp add: quad_b_def ieee_eval)
  have c: "quad_c ieee (Fin 0, Fin 0, Fin 3) (Fin 0) = Fin 9"
    by (simp add: quad_c_def ieee_eval)
  have d: "quad_disc ieee (Fin 1) (Fin (- 6)) (Fin 9) = Fin 0"
    by (simp add: quad_disc_def ieee_eval)
  have r: "quad_roots ieee (Fin 1) (Fin (- 6)) (Fin 9) (Fin 0) = (Fin 3, Fin 3)"
    by (simp add: quad_roots_def ieee_eval)
  show "disc_of ieee (Fin 0, Fin 0, Fin 3) (Fin 0, Fin 0, Fin (- 1)) (Fin 0, Fin 0, Fin 0) (Fin 0) = Fin 0"
    by (rule disc_roots_eval(1)[OF oc a b c d r])
  show "roots_of ieee (Fin 0, Fin 0, Fin 3) (Fin 0, Fin 0, Fin (- 1)) (Fin 0, Fin 0, Fin 0) (Fin 0)
     = (Fin 3, Fin 3)"
    by (rule disc_roots_eval(2)[OF oc a b c d r])
qed

lemma point_sphere_hit:
  "Intersect ieee (PrepareTraversal point_sphere ray_down (default_trace_options 1)) (Fin (2 ^ 100)) 0
     = Inr (True, Fin 3, PrepareTraversal point_sphere ray_down (default_trace_options 1))"
proof -
  let ?S = "PrepareTraversal point_sphere ray_down (default_trace_options 1)"
  have r: "in_range ?S 0"
    by (simp add: in_range_def default_trace_options_def)
  have c: "load3 (vertices_m ?S) (unat (3 * (0 :: 32 word))) = Inr (Fin 0, Fin 0, Fin 0)"
    by (simp add: load3_def point_sphere_def scene_simps)
  have l: "load (radiuss_m ?S) (unat (0 :: 32 word)) = Inr (Fin 0)"
    by (simp add: load_def point_sphere_def scene_simps)
  show ?thesis
    unfolding Intersect_in_range[OF r c l]
    by (simp add: ray_down_def point_sphere_down far_root_def near_root_def candidate_def fgt_def)
qed

lemma nan_sphere_hit:
  "Intersect ieee (PrepareTraversal nan_sphere ray_down (default_trace_options 1)) (Fin (2 ^ 100)) 0
     = Inr (True, NaN, PrepareTraversal nan_sphere ray_down (default_trace_options 1))"
proof -
  let ?S = "PrepareTraversal nan_sphere ray_down (default_trace_options 1)"
  have r: "in_range ?S 0"
    by (simp add: in_range_def default_trace_options_def)
  have c: "load3 (vertices_m ?S) (unat (3 * (0 :: 32 word))) = Inr (NaN, Fin 0, Fin 0)"
    by (simp add: load3_def nan_sphere_def scene_simps)
  have l: "load (radiuss_m ?S) (unat (0 :: 32 word)) = Inr (Fin 1)"
    by (simp add: load_def nan_sphere_def scene_simps)
  have d: "disc_of ieee (ray_org_m ?S) (ray_dir_m ?S) (NaN, Fin 0, Fin 0) (Fin 1) = NaN"
    by (rule disc_of_NaN_input) simp
  show ?thesis
    by (rule Intersect_NaN_disc[OF r c l d])
qed

lemma twin_hit_0:
  "Intersect ieee (PrepareTraversal twin_spheres ray_down (default_trace_options 2)) (Fin (2 ^ 100)) 0
     = Inr (True, Fin 2, PrepareTraversal twin_spheres ray_down (default_trace_options 2))"
proof -
  let ?S = "PrepareTraversal twin_spheres ray_down (default_trace_options 2)"
  have r: "in_range ?S 0"
    by (simp add: in_range_def default_trace_options_def)
  have c: "load3 (vertices_m ?S) (unat (3 * (0 :: 32 word))) = Inr (Fin 0, Fin 0, Fin 0)"
    by (simp add: load3_def twin_spheres_def scene_simps)
  have l: "load (radiuss_m ?S) (unat (0 :: 32 word)) = Inr (Fin 1)"
    by (simp add: load_def twin_spheres_def scene_simps)
  show ?thesis
    unfolding Intersect_in_range[OF r c l]
    by (simp add: ray_down_def unit_sphere_down far_root_def near_root_def candidate_def fgt_def)
qed

lemma twin_facts:
  "in_range (PrepareTraversal twin_spheres ray_down (default_trace_options 2)) 1"
  "load3 (vertices_m (PrepareTraversal twin_spheres ray_down (default_trace_options 2))) (unat (3 * (1 :: 32 word)))
     = load3 (vertices_m (PrepareTraversal twin_spheres ray_down (default_trace_options 2))) (unat (3 * (0 :: 32 word)))"
  "load (radiuss_m (PrepareTraversal twin_spheres ray_down (default_trace_options 2))) (unat (1 :: 32 word))
     = load (radiuss_m (PrepareTraversal twin_spheres ray_down (default_trace_options 2))) (unat (0 :: 32 word))"
  by (simp_all add: in_range_def default_trace_options_def load3_def load_def twin_spheres_def scene_simps)

lemma twin_hit_1:
  "Intersect ieee (Update (PrepareTraversal twin_spheres ray_down (default_trace_options 2)) (Fin 2) 0)
      (Fin 2) 1
     = Inr (True, Fin 2, Update (PrepareTraversal twin_spheres ray_down (default_trace_options 2)) (Fin 2) 0)"
proof -
  let ?S = "Update (PrepareTraversal twin_spheres ray_down (default_trace_options 2)) (Fin 2) 0"
  have r: "in_range ?S 1"
    by (simp add: in_range_def default_trace_options_def)
  have c: "load3 (vertices_m ?S) (unat (3 * (1 :: 32 word))) = Inr (Fin 0, Fin 0, Fin 0)"
    by (simp add: load3_def twin_spheres_def scene_simps)
  have l: "load (radiuss_m ?S) (unat (1 :: 32 word)) = Inr (Fin 1)"
    by (simp add: load_def twin_spheres_def scene_simps)
  show ?thesis
    unfolding Intersect_in_range[OF r c l]
    by (simp add: ray_down_def unit_sphere_down far_root_def near_root_def candidate_def fgt_def)
qed

text \<open>
  The ray that passes outside of the unit sphere: the square of \<open>1 + 2\<^sup>-\<^sup>2\<^sup>3\<close> is rounded to
  \<open>1 + 2\<^sup>-\<^sup>2\<^sup>2\<close>, the sum with 9 to 10, and the computed discriminant is zero.
\<close>

lemma unit_sphere_grazed:
  "disc_of ieee (Fin (1 + 1 / 2 ^ 23), Fin 0, Fin 3) (Fin 0, Fin 0, Fin (- 1)) (Fin 0, Fin 0, Fin 0) (Fin 1) = Fin 0"
  "roots_of ieee (Fin (1 + 1 / 2 ^ 23), Fin 0, Fin 3) (Fin 0, Fin 0, Fin (- 1)) (Fin 0, Fin 0, Fin 0) (Fin 1)
     = (Fin 3, Fin 3)"
proof -
  have oc: "vsub ieee (Fin (1 + 1 / 2 ^ 23), Fin 0, Fin 3) (Fin 0, Fin 0, Fin 0)
      = (Fin (1 + 1 / 2 ^ 23), Fin 0, Fin 3)"
    by (simp add: ieee_eval)
  have a: "quad_a ieee (Fin 0, Fin 0, Fin (- 1)) = Fin 1"
    by (simp add: quad_a_def ieee_eval)
  have b: "quad_b ieee (Fin 0, Fin 0, Fin (- 1)) (Fin (1 + 1 / 2 ^ 23), Fin 0, Fin 3) = Fin (- 6)"
    by (simp add: quad_b_def ieee_eval)
  have c: "quad_c ieee (Fin (1 + 1 / 2 ^ 23), Fin 0, Fin 3) (Fin 1) = Fin 9"
    by (simp add: quad_c_def ieee_eval)
  have d: "quad_disc ieee (Fin 1) (Fin (- 6)) (Fin 9) = Fin 0"
    by (simp add: quad_disc_def ieee_eval)
  have r: "quad_roots ieee (Fin 1) (Fin (- 6)) (Fin 9) (Fin 0) = (Fin 3, Fin 3)"
    by (simp add: quad_roots_def ieee_eval)
  show "disc_of ieee (Fin (1 + 1 / 2 ^ 23), Fin 0, Fin 3) (Fin 0, Fin 0, Fin (- 1)) (Fin 0, Fin 0, Fin 0) (Fin 1) = Fin 0"
    by (rule disc_roots_eval(1)[OF oc a b c d r])
  show "roots_of ieee (Fin (1 + 1 / 2 ^ 23), Fin 0, Fin 3) (Fin 0, Fin 0, Fin (- 1)) (Fin 0, Fin 0, Fin 0) (Fin 1)
     = (Fin 3, Fin 3)"
    by (rule disc_roots_eval(2)[OF oc a b c d r])
qed

lemma grazing_values:
  "disc_of ieee (org ray_grazing) (dir ray_grazing) (Fin 0, Fin 0, Fin 0) (Fin 1) = Fin 0"
  "roots_of ieee (org ray_grazing) (dir ray_grazing) (Fin 0, Fin 0, Fin 0) (Fin 1) = (Fin 3, Fin 3)"
  using unit_sphere_grazed by (simp_all only: ray_grazing_def Ray.simps)

lemma grazing_hit:
  "Intersect ieee (PrepareTraversal unit_sphere ray_grazing (default_trace_options 1)) (Fin (2 ^ 100)) 0
     = Inr (True, Fin 3, PrepareTraversal unit_sphere ray_grazing (default_trace_options 1))"
proof -
  let ?S = "PrepareTraversal unit_sphere ray_grazing (default_trace_options 1)"
  have r: "in_range ?S 0"
    by (simp add: in_range_def default_trace_options_def)
  have c: "load3 (vertices_m ?S) (unat (3 * (0 :: 32 word))) = Inr (Fin 0, Fin 0, Fin 0)"
    by (simp add: load3_def unit_sphere_def scene_simps)
  have l: "load (radiuss_m ?S) (unat (0 :: 32 word)) = Inr (Fin 1)"
    by (simp add: load_def unit_sphere_def scene_simps)
  show ?thesis
    unfolding Intersect_in_range[OF r c l] prepared_fields grazing_values
    by (simp add: far_root_def near_root_def candidate_def fgt_def)
qed

lemma grazing_outside:
  "\<not> on_sphere (org ray_grazing) (dir ray_grazing) (Fin 0, Fin 0, Fin 0) (Fin 1) s"
proof -
  have "(1 :: real) < (1 + 1 / 2 ^ 23)\<^sup>2"
    by (simp add: power2_eq_square)
  moreover have "0 \<le> (3 - s)\<^sup>2"
    by simp
  ultimately have "(1 + 1 / 2 ^ 23)\<^sup>2 + (3 - s)\<^sup>2 \<noteq> (1 :: real)"
    by linarith
  then show ?thesis
    by (simp add: ray_grazing_def)
qed

text \<open>
  The two rays that pass beside the sphere of radius zero: at the distance \<open>2\<^sup>-\<^sup>1\<^sup>3\<close> the sum
  \<open>9 + 2\<^sup>-\<^sup>2\<^sup>6\<close> is rounded to 9 and the computed discriminant is zero, at the distance 1 it
  is negative.
\<close>

lemma point_sphere_beside:
  "disc_of ieee (org ray_beside) (dir ray_beside) (Fin 0, Fin 0, Fin 0) (Fin 0) = Fin 0"
  "roots_of ieee (org ray_beside) (dir ray_beside) (Fin 0, Fin 0, Fin 0) (Fin 0) = (Fin 3, Fin 3)"
proof -
  have oc: "vsub ieee (Fin (1 / 2 ^ 13), Fin 0, Fin 3) (Fin 0, Fin 0, Fin 0)
      = (Fin (1 / 2 ^ 13), Fin 0, Fin 3)"
    by (simp add: ieee_eval)
  have a: "quad_a ieee (Fin 0, Fin 0, Fin (- 1)) = Fin 1"
    by (simp add: quad_a_def ieee_eval)
  have b: "quad_b ieee (Fin 0, Fin 0, Fin (- 1)) (Fin (1 / 2 ^ 13), Fin 0, Fin 3) = Fin (- 6)"
    by (simp add: quad_b_def ieee_eval)
  have c: "quad_c ieee (Fin (1 / 2 ^ 13), Fin 0, Fin 3) (Fin 0) = Fin 9"
    by (simp add: quad_c_def ieee_eval)
  have d: "quad_disc ieee (Fin 1) (Fin (- 6)) (Fin 9) = Fin 0"
    by (simp add: quad_disc_def ieee_eval)
  have r: "quad_roots ieee (Fin 1) (Fin (- 6)) (Fin 9) (Fin 0) = (Fin 3, Fin 3)"
    by (simp add: quad_roots_def ieee_eval)
  show "disc_of ieee (org ray_beside) (dir ray_beside) (Fin 0, Fin 0, Fin 0) (Fin 0) = Fin 0"
    unfolding ray_beside_def Ray.simps by (rule disc_roots_eval(1)[OF oc a b c d r])
  show "roots_of ieee (org ray_beside) (dir ray_beside) (Fin 0, Fin 0, Fin 0) (Fin 0) = (Fin 3, Fin 3)"
    unfolding ray_beside_def Ray.simps by (rule disc_roots_eval(2)[OF oc a b c d r])
qed

lemma point_sphere_apart:
  "disc_of ieee (org ray_apart) (dir ray_apart) (Fin 0, Fin 0, Fin 0) (Fin 0) = Fin (- 4)"
proof -
  have oc: "vsub ieee (Fin 1, Fin 0, Fin 3) (Fin 0, Fin 0, Fin 0) = (Fin 1, Fin 0, Fin 3)"
    by (simp add: ieee_eval)
  have a: "quad_a ieee (Fin 0, Fin 0, Fin (- 1)) = Fin 1"
    by (simp add: quad_a_def ieee_eval)
  have b: "quad_b ieee (Fin 0, Fin 0, Fin (- 1)) (Fin 1, Fin 0, Fin 3) = Fin (- 6)"
    by (simp add: quad_b_def ieee_eval)
  have c: "quad_c ieee (Fin 1, Fin 0, Fin 3) (Fin 0) = Fin 10"
    by (simp add: quad_c_def ieee_eval)
  have d: "quad_disc ieee (Fin 1) (Fin (- 6)) (Fin 10) = Fin (- 4)"
    by (simp add: quad_disc_def ieee_eval)
  show ?thesis
    unfolding ray_apart_def Ray.simps by (rule disc_roots_eval(1)[OF oc a b c d refl])
qed

lemma beside_never_at_centre:
  "\<not> on_sphere (org ray_beside) (dir ray_beside) (Fin 0, Fin 0, Fin 0) (Fin 0) s"
proof -
  have "(0 :: real) < (1 / 2 ^ 13)\<^sup>2"
    by simp
  moreover have "0 \<le> (3 - s)\<^sup>2"
    by simp
  ultimately have "(1 / 2 ^ 13)\<^sup>2 + (3 - s)\<^sup>2 \<noteq> (0 :: real)"
    by linarith
  then show ?thesis
    by (simp add: ray_beside_def)
qed

section \<open>The hit record of the unit sphere\<close>

text \<open>
  Machin's formula and the series of the arc tangent bound \<open>\<pi>\<close> closely enough to round
  \<open>\<pi> / 2\<close> to binary64.
\<close>

lemma arctan_between:
  assumes "0 \<le> x" "x \<le> 1"
  shows "atn_sum x (2 * n) \<le> arctan x" and "arctan x \<le> atn_sum x (2 * n + 1)"
proof -
  let ?a = "\<lambda>n. 1 / real (n * 2 + 1) * x ^ (n * 2 + 1)"
  have z: "?a \<longlonglongrightarrow> 0"
    by (rule zeroseq_arctan_series) (use assms in simp)
  have p: "0 \<le> ?a k" for k
    using assms by simp
  have m: "?a (Suc k) \<le> ?a k" for k
  proof -
    have "x ^ (Suc k * 2 + 1) \<le> x ^ (k * 2 + 1)"
      by (rule power_decreasing) (use assms in auto)
    moreover have "1 / real (Suc k * 2 + 1) \<le> 1 / real (k * 2 + 1)"
      by (simp add: field_simps)
    ultimately show ?thesis
      by (intro mult_mono) (use assms in auto)
  qed
  have s: "arctan x = (\<Sum>k. (-1)^k * ?a k)"
    by (rule arctan_series) (use assms in simp)
  show "atn_sum x (2 * n) \<le> arctan x"
    unfolding s atn_sum_def by (rule summable_Leibniz'(2)[OF z p m])
  show "arctan x \<le> atn_sum x (2 * n + 1)"
    unfolding s atn_sum_def by (rule summable_Leibniz'(4)[OF z p m])
qed

lemma pi_lower: "884279719003555 / 281474976710656 \<le> pi"
proof -
  have a: "atn_sum (1/5) (2 * 7) \<le> arctan (1/5)" by (rule arctan_between) simp_all
  have b: "arctan (1/239) \<le> atn_sum (1/239) (2 * 2 + 1)" by (rule arctan_between) simp_all
  have "pi = 16 * arctan (1/5) - 4 * arctan (1/239)" using machin by simp
  then have "16 * atn_sum (1/5) (2 * 7) - 4 * atn_sum (1/239) (2 * 2 + 1) \<le> pi"
    using a b by linarith
  moreover have "884279719003555 / 281474976710656
      \<le> 16 * atn_sum (1/5) (2 * 7) - 4 * atn_sum (1/239) (2 * 2 + 1)"
    by (simp add: atn_sum_def eval_nat_numeral)
  ultimately show ?thesis by linarith
qed

lemma pi_upper: "pi < 884279719003555 / 281474976710656 + 1 / 2 ^ 52"
proof -
  have a: "arctan (1/5) \<le> atn_sum (1/5) (2 * 7 + 1)" by (rule arctan_between) simp_all
  have b: "atn_sum (1/239) (2 * 2) \<le> arctan (1/239)" by (rule arctan_between) simp_all
  have "pi = 16 * arctan (1/5) - 4 * arctan (1/239)" using machin by simp
  then have "pi \<le> 16 * atn_sum (1/5) (2 * 7 + 1) - 4 * atn_sum (1/239) (2 * 2)"
    using a b by linarith
  moreover have "16 * atn_sum (1/5) (2 * 7 + 1) - 4 * atn_sum (1/239) (2 * 2)
      < 884279719003555 / 281474976710656 + 1 / 2 ^ 52"
    by (simp add: atn_sum_def eval_nat_numeral)
  ultimately show ?thesis by linarith
qed

lemma binary64_half_pi: "binary64 (pi / 2) = Fin (884279719003555 / 562949953421312)"
proof -
  define y where "y = \<bar>pi / 2\<bar> / pow2 (- 52)"
  have f1: "\<lfloor>pi / 2\<rfloor> = 1"
    by (rule floor_unique) (use pi_ge_two pi_less_4 in auto)
  have ab: "\<bar>pi / 2\<bar> = pi / 2"
    by simp
  have il: "ilog2 (pi / 2) = 0"
    using pi_ge_two by (simp add: ilog2_def f1 compute_floorlog)
  have e: "max (ilog2 \<bar>pi / 2\<bar>) (1 - 1023) - (int 53 - 1) = - 52"
    unfolding ab il by simp
  have sc: "y = pi * 2 ^ 51"
    by (simp add: y_def pow2_def)
  have lo: "7074237752028440 \<le> y"
    unfolding sc using pi_lower by (simp add: field_simps)
  have hi: "y < 7074237752028440 + 1 / 2"
    unfolding sc using pi_upper by (simp add: field_simps)
  have fl: "\<lfloor>y\<rfloor> = 7074237752028440"
    by (rule floor_unique) (use lo hi in auto)
  have rn: "rne y = 7074237752028440"
    unfolding rne_def fl Let_def using hi by simp
  show ?thesis
    unfolding binary64_def round_to_def Let_def e y_def[symmetric] rn
    by (simp add: pow2_def inf_of_def zero_of_def)
qed

lemma libm_cr_values:
  "c_atan2 libm_cr (Fin 0) (Fin 1) = Fin 0"
  "c_acos libm_cr (Fin 0) = Fin (884279719003555 / 562949953421312)"
  by (simp_all add: libm_cr_def cr_atan2_def cr_acos_def with_sign_of_def binary64_half_pi)

lemma unit_sphere_normal:
  "hit_normal ieee (Update (PrepareTraversal unit_sphere ray_down (default_trace_options 1)) (Fin 2) 0)
     (Fin 0, Fin 0, Fin 0) = (Fin 0, Fin 0, Fin 1)"
proof -
  have s: "vscale ieee (Fin 2) (Fin 0, Fin 0, Fin (- 1)) = (Fin 0, Fin 0, Fin (- 2))"
    by (simp add: ieee_eval)
  have p: "vadd ieee (Fin 0, Fin 0, Fin 3) (Fin 0, Fin 0, Fin (- 2)) = (Fin 0, Fin 0, Fin 1)"
    by (simp add: ieee_eval)
  have d: "vsub ieee (Fin 0, Fin 0, Fin 1) (Fin 0, Fin 0, Fin 0) = (Fin 0, Fin 0, Fin 1)"
    by (simp add: ieee_eval)
  have l: "vlength ieee (Fin 0, Fin 0, Fin 1) = Fin 1"
    by (simp add: vlength_def ieee_eval)
  have n: "vnormalize ieee (Fin 0, Fin 0, Fin 1) = (Fin 0, Fin 0, Fin 1)"
    unfolding vnormalize.simps l Let_def by (simp add: ieee_eval)
  show ?thesis
    unfolding hit_normal_def Let_def
    by (simp add: ray_down_def s p d n del: vscale.simps vadd.simps vsub.simps vnormalize.simps)
qed

lemma u_value:
  "to_float ieee (muld ieee (muld ieee (addd ieee (Fin 0) M_PI) (Fin (1 / 2))) (divd ieee (Fin 1) M_PI))
     = Fin (1 / 2)"
proof -
  have a: "addd ieee (Fin 0) M_PI = M_PI"
    by (simp add: M_PI_def ieee_eval)
  have h: "muld ieee M_PI (Fin (1 / 2)) = Fin (884279719003555 / 562949953421312)"
    by (simp add: M_PI_def ieee_eval)
  have i: "divd ieee (Fin 1) M_PI = Fin (5734161139222659 / 18014398509481984)"
    by (simp add: M_PI_def ieee_eval)
  have m: "muld ieee (Fin (884279719003555 / 562949953421312))
              (Fin (5734161139222659 / 18014398509481984)) = Fin (1 / 2)"
    by (simp add: ieee_eval)
  show ?thesis
    unfolding a h i m by (simp add: ieee_eval)
qed

lemma v_value:
  "to_float ieee (divd ieee (Fin (884279719003555 / 562949953421312)) M_PI) = Fin (1 / 2)"
proof -
  have d: "divd ieee (Fin (884279719003555 / 562949953421312)) M_PI = Fin (1 / 2)"
    by (simp add: M_PI_def ieee_eval)
  show ?thesis
    unfolding d by (simp add: ieee_eval)
qed

section \<open>The render configuration\<close>

lemma and_then_Inr_iff: "and_then m f = Inr y \<longleftrightarrow> (\<exists>x. m = Inr x \<and> f x = Inr y)"
  by (cases m) (simp_all add: and_then_def)

lemma read_width_fov: "read_width obj c = Inr c' \<Longrightarrow> fov c' = fov c"
  by (auto simp: read_width_def and_then_Inr_iff split: option.splits json.splits)

lemma read_height_fov: "read_height obj c = Inr c' \<Longrightarrow> fov c' = fov c"
  by (auto simp: read_height_def and_then_Inr_iff split: option.splits json.splits)

lemma read_fov_no_width:
  "read_fov A obj c = Inr (c', obj') \<Longrightarrow> obj ''width'' = None \<Longrightarrow> fov c' = Fin 45"
  by (auto simp: read_fov_def Let_def split: option.splits)

lemma read_fov_changed:
  "read_fov A obj c = Inr (c', obj') \<Longrightarrow> fov c' \<noteq> Fin 45 \<Longrightarrow>
     \<exists>x w. obj ''fov'' = Some (JNumber x) \<and> obj ''width'' = Some (JNumber w)"
  by (auto simp: read_fov_def Let_def and_then_Inr_iff get_double_def split: option.splits json.splits)

lemma read_fov_applied:
  "read_fov A obj c = Inr (c', obj') \<Longrightarrow> obj ''fov'' = Some (JNumber x) \<Longrightarrow>
   obj ''width'' = Some (JNumber w) \<Longrightarrow>
     \<exists>n. double_to_int x = Inr n \<and> n = trunc_real (valof x) \<and> fov c' = int_to_float A n"
  by (auto simp: read_fov_def Let_def and_then_Inr_iff get_double_def double_to_int_def
      trunc_real_def split: option.splits json.splits fp.splits if_splits)

lemma LoadRenderConfig_fov:
  assumes "LoadRenderConfig A config (Some (JObject obj)) = Inr (ok, config')"
  shows "\<exists>c c2 obj'. read_fov A obj c = Inr (c2, obj') \<and> fov config' = fov c2"
proof -
  from assms obtain c c2 obj' c3 where
    "read_fov A obj c = Inr (c2, obj')" "read_width obj' c2 = Inr c3" "read_height obj' c3 = Inr config'"
    by (auto simp: LoadRenderConfig_def and_then_Inr_iff)
  then show ?thesis
    using read_width_fov read_height_fov by metis
qed

lemma load_fov_only:
  "LoadRenderConfig ieee blank_config (Some (JObject fov_only))
     = Inr (True, blank_config\<lparr>scene_scale := Fin 1, eye := (Fin 0, Fin 0, Fin 5),
              up := (Fin 0, Fin 1, Fin 0), look_at := (Fin 0, Fin 0, Fin 0), fov := Fin 45,
              width := 512, height := 512\<rparr>)"
  by (simp add: LoadRenderConfig_def and_then_def fov_only_def read_max_points_def
      read_scene_scale_def read_las_filename_def read_vec3_def read_fov_def read_width_def
      read_height_def blank_config_def)

lemma load_fov_and_width:
  "LoadRenderConfig ieee blank_config (Some (JObject fov_and_width))
     = Inr (True, blank_config\<lparr>scene_scale := Fin 1, eye := (Fin 0, Fin 0, Fin 5),
              up := (Fin 0, Fin 1, Fin 0), look_at := (Fin 0, Fin 0, Fin 0), fov := Fin 60,
              width := 640, height := 512\<rparr>)"
  by (simp add: LoadRenderConfig_def and_then_def fov_and_width_def read_max_points_def
      read_scene_scale_def read_las_filename_def read_vec3_def read_fov_def read_width_def
      read_height_def blank_config_def get_double_def double_to_int_def trunc_real_def
      int_to_float_def ieee_def rnd_eval)

section \<open>The claims\<close>

subsection \<open>C1: the distance of a reported hit\<close>

text \<open>
  Claim C1 says that every hit that \<^verbatim>\<open>Intersect\<close> reports for a prepared ray has
  \<open>ray.min_t \<le> t_new \<le> t_current\<close>.  \<^verbatim>\<open>PrepareTraversal\<close> does not record \<open>min_t\<close> and
  \<^verbatim>\<open>Intersect\<close> never reads it: the lower bound that the code enforces is zero.  What holds
  for every arithmetic: the distance of a reported hit is not below zero and not above
  \<open>t_current\<close>, that is \<open>0 \<le> t_new \<le> t_current\<close> whenever neither of the two is NaN.
\<close>

theorem C1_hit_bounds:
  assumes "Intersect A S t_current i = Inr (True, t_new, S')"
  shows "\<not> flt t_new (Fin 0) \<and> \<not> fgt t_new t_current
     \<and> (t_new \<noteq> NaN \<and> t_current \<noteq> NaN \<longrightarrow> fle (Fin 0) t_new \<and> fle t_new t_current)"
proof -
  from Intersect_hitD[OF assms] obtain r where
    r: "\<not> flt (far_root r) (Fin 0)" "\<not> fgt (candidate r) t_current" "t_new = candidate r"
    by blast
  have a: "\<not> flt t_new (Fin 0)" using r candidate_not_negative by simp
  have b: "\<not> fgt t_new t_current" using r by simp
  have c: "fle (Fin 0) t_new" if "t_new \<noteq> NaN"
    using a that by (cases t_new) (auto simp: fle_def)
  have d: "fle t_new t_current" if "t_new \<noteq> NaN" "t_current \<noteq> NaN"
    using b that by (cases t_new; cases t_current) (auto simp: fle_def fgt_def)
  from a b c d show ?thesis by blast
qed

text \<open>
  The unit sphere is hit at distance 2 by the ray from \<open>(0, 0, 3)\<close> down the z axis, also
  when the ray has \<open>min_t = 5/2\<close>.
\<close>

theorem C1_hit_bounds_witness:
  "Intersect ieee (PrepareTraversal unit_sphere ray_down (default_trace_options 1)) (Fin (2 ^ 100)) 0
     = Inr (True, Fin 2, PrepareTraversal unit_sphere ray_down (default_trace_options 1))
   \<and> fle (Fin 0) (Fin 2) \<and> fle (Fin 2) (Fin (2 ^ 100))"
  using C1_hit_bounds[OF unit_sphere_hit] unit_sphere_hit by simp

theorem C1_min_t_counterexample:
  "Intersect ieee (PrepareTraversal unit_sphere ray_late (default_trace_options 1)) (max_t ray_late) 0
     = Inr (True, Fin 2, PrepareTraversal unit_sphere ray_late (default_trace_options 1))
   \<and> fle (min_t ray_late) (max_t ray_late)
   \<and> \<not> fle (min_t ray_late) (Fin 2)"
proof -
  have "PrepareTraversal unit_sphere ray_late (default_trace_options 1)
      = PrepareTraversal unit_sphere ray_down (default_trace_options 1)"
    by (simp add: PrepareTraversal_def ray_late_def)
  moreover have "max_t ray_late = Fin (2 ^ 100)" "min_t ray_late = Fin (5 / 2)"
    by (simp_all add: ray_late_def ray_down_def)
  ultimately show ?thesis
    using unit_sphere_hit by (simp add: fle_def)
qed

subsection \<open>C2: the nearer non-negative root\<close>

text \<open>
  Claim C2 says that the distance of a reported hit is the nearer non-negative root of
  \<open>|org + t * dir - center|\<^sup>2 = radius\<^sup>2\<close>, and that a miss is reported when both roots are
  negative or the discriminant is negative.  \<^verbatim>\<open>Intersect\<close> decides on the discriminant and
  the two roots that it computes in \<^verbatim>\<open>float\<close> and \<^verbatim>\<open>double\<close> arithmetic, and these need not
  agree with the equation over the reals.  What holds of the computed values, for every
  arithmetic: the distance of a reported hit is one of the two computed roots, it is not
  negative, and it is not greater than a computed root that is not negative; a miss is
  reported when the computed discriminant is negative or both computed roots are
  negative; and when the computed discriminant and the larger computed root are not
  negative, a hit at the chosen root is reported unless that root is greater than
  \<^verbatim>\<open>*t_inout\<close>.
\<close>

theorem C2_nearest_computed_root:
  assumes "in_range S i"
    and "load3 (vertices_m S) (unat (3 * i)) = Inr center"
    and "load (radiuss_m S) (unat i) = Inr radius"
  shows "(\<forall>t_new S'. Intersect A S t_current i = Inr (True, t_new, S') \<longrightarrow>
            (t_new = fst (roots_of A (ray_org_m S) (ray_dir_m S) center radius) \<or>
             t_new = snd (roots_of A (ray_org_m S) (ray_dir_m S) center radius)) \<and>
            \<not> flt t_new (Fin 0) \<and>
            (\<not> flt (fst (roots_of A (ray_org_m S) (ray_dir_m S) center radius)) (Fin 0) \<longrightarrow>
               \<not> fgt t_new (fst (roots_of A (ray_org_m S) (ray_dir_m S) center radius))) \<and>
            (\<not> flt (snd (roots_of A (ray_org_m S) (ray_dir_m S) center radius)) (Fin 0) \<longrightarrow>
               \<not> fgt t_new (snd (roots_of A (ray_org_m S) (ray_dir_m S) center radius))))
     \<and> (flt (disc_of A (ray_org_m S) (ray_dir_m S) center radius) (Fin 0) \<or>
          (flt (fst (roots_of A (ray_org_m S) (ray_dir_m S) center radius)) (Fin 0) \<and>
           flt (snd (roots_of A (ray_org_m S) (ray_dir_m S) center radius)) (Fin 0)) \<longrightarrow>
            Intersect A S t_current i = Inr (False, t_current, S))
     \<and> (\<not> flt (disc_of A (ray_org_m S) (ray_dir_m S) center radius) (Fin 0) \<and>
          \<not> flt (far_root (roots_of A (ray_org_m S) (ray_dir_m S) center radius)) (Fin 0) \<longrightarrow>
            Intersect A S t_current i =
              (if fgt (candidate (roots_of A (ray_org_m S) (ray_dir_m S) center radius)) t_current
               then Inr (False, t_current, S)
               else Inr (True, candidate (roots_of A (ray_org_m S) (ray_dir_m S) center radius), S)))"
proof (intro conjI allI impI)
  let ?R = "roots_of A (ray_org_m S) (ray_dir_m S) center radius"
  let ?D = "disc_of A (ray_org_m S) (ray_dir_m S) center radius"
  note eq = Intersect_in_range[OF assms, of A t_current]
  {
    fix t_new S'
    assume hit: "Intersect A S t_current i = Inr (True, t_new, S')"
    from Intersect_hitD[OF hit] assms(2,3)
    have far: "\<not> flt (far_root ?R) (Fin 0)" and t: "t_new = candidate ?R"
      by auto
    show "t_new = fst ?R \<or> t_new = snd ?R"
      unfolding t by (rule candidate_one_of)
    show "\<not> flt t_new (Fin 0)"
      unfolding t using far by (rule candidate_not_negative)
    {
      assume "\<not> flt (fst ?R) (Fin 0)"
      then show "\<not> fgt t_new (fst ?R)"
        unfolding t by (rule candidate_nearest(1))
    }
    {
      assume "\<not> flt (snd ?R) (Fin 0)"
      then show "\<not> fgt t_new (snd ?R)"
        unfolding t by (rule candidate_nearest(2))
    }
  }
  {
    assume "flt ?D (Fin 0) \<or> (flt (fst ?R) (Fin 0) \<and> flt (snd ?R) (Fin 0))"
    then have "flt ?D (Fin 0) \<or> flt (far_root ?R) (Fin 0)"
      using far_root_negative[of ?R] by blast
    then show "Intersect A S t_current i = Inr (False, t_current, S)"
      unfolding eq by auto
  }
  {
    assume "\<not> flt ?D (Fin 0) \<and> \<not> flt (far_root ?R) (Fin 0)"
    then show "Intersect A S t_current i =
        (if fgt (candidate ?R) t_current then Inr (False, t_current, S)
         else Inr (True, candidate ?R, S))"
      unfolding eq by simp
  }
qed

text \<open>
  For the unit sphere and the ray from \<open>(0, 0, 3)\<close> down the z axis the computed roots are
  2 and 4: a hit at 2 is reported when \<^verbatim>\<open>*t_inout\<close> is large, and a miss when it is 1.
\<close>

theorem C2_nearest_computed_root_witness:
  "in_range (PrepareTraversal unit_sphere ray_down (default_trace_options 1)) 0
   \<and> load3 (vertices_m (PrepareTraversal unit_sphere ray_down (default_trace_options 1)))
        (unat (3 * (0 :: 32 word))) = Inr (Fin 0, Fin 0, Fin 0)
   \<and> load (radiuss_m (PrepareTraversal unit_sphere ray_down (default_trace_options 1)))
        (unat (0 :: 32 word)) = Inr (Fin 1)
   \<and> roots_of ieee (org ray_down) (dir ray_down) (Fin 0, Fin 0, Fin 0) (Fin 1) = (Fin 2, Fin 4)
   \<and> \<not> flt (disc_of ieee (org ray_down) (dir ray_down) (Fin 0, Fin 0, Fin 0) (Fin 1)) (Fin 0)
   \<and> \<not> flt (far_root (Fin 2, Fin 4)) (Fin 0)
   \<and> candidate (Fin 2, Fin 4) = Fin 2
   \<and> Intersect ieee (PrepareTraversal unit_sphere ray_down (default_trace_options 1)) (Fin (2 ^ 100)) 0
       = Inr (True, Fin 2, PrepareTraversal unit_sphere ray_down (default_trace_options 1))
   \<and> Intersect ieee (PrepareTraversal unit_sphere ray_down (default_trace_options 1)) (Fin 1) 0
       = Inr (False, Fin 1, PrepareTraversal unit_sphere ray_down (default_trace_options 1))"
proof -
  let ?S = "PrepareTraversal unit_sphere ray_down (default_trace_options 1)"
  have r: "in_range ?S 0"
    by (simp add: in_range_def default_trace_options_def)
  have c: "load3 (vertices_m ?S) (unat (3 * (0 :: 32 word))) = Inr (Fin 0, Fin 0, Fin 0)"
    by (simp add: load3_def unit_sphere_def scene_simps)
  have l: "load (radiuss_m ?S) (unat (0 :: 32 word)) = Inr (Fin 1)"
    by (simp add: load_def unit_sphere_def scene_simps)
  have v: "disc_of ieee (org ray_down) (dir ray_down) (Fin 0, Fin 0, Fin 0) (Fin 1) = Fin 4"
    "roots_of ieee (org ray_down) (dir ray_down) (Fin 0, Fin 0, Fin 0) (Fin 1) = (Fin 2, Fin 4)"
    using unit_sphere_down by (simp_all only: ray_down_def Ray.simps)
  have f: "\<not> flt (Fin 4) (Fin 0)" "\<not> flt (far_root (Fin 2, Fin 4)) (Fin 0)"
    "candidate (Fin 2, Fin 4) = Fin 2"
    by (simp_all add: far_root_def near_root_def candidate_def fgt_def)
  have g: "\<not> fgt (Fin 2) (Fin (2 ^ 100))" "fgt (Fin 2) (Fin 1)"
    by (simp_all add: fgt_def)
  note th = C2_nearest_computed_root[OF r c l, of ieee, unfolded prepared_fields v f]
  from th[of "Fin (2 ^ 100)"] th[of "Fin 1"] r c l v f g show ?thesis
    by simp
qed

text \<open>
  The ray from \<open>(1 + 2\<^sup>-\<^sup>2\<^sup>3, 0, 3)\<close> down the z axis passes outside of the unit sphere: no
  point of its line is on the sphere, so the equation has no root.  Under IEEE arithmetic
  the computed discriminant is zero, and a hit at distance 3 is reported.
\<close>

theorem C2_grazing_ray_counterexample:
  "Intersect ieee (PrepareTraversal unit_sphere ray_grazing (default_trace_options 1))
       (max_t ray_grazing) 0
     = Inr (True, Fin 3, PrepareTraversal unit_sphere ray_grazing (default_trace_options 1))
   \<and> (\<forall>s. \<not> on_sphere (org ray_grazing) (dir ray_grazing) (Fin 0, Fin 0, Fin 0) (Fin 1) s)"
proof -
  have "max_t ray_grazing = Fin (2 ^ 100)" by (simp add: ray_grazing_def)
  then show ?thesis
    using grazing_hit grazing_outside by simp
qed

subsection \<open>C3: NaN\<close>

text \<open>
  Claim C3 says that a call whose arithmetic produces NaN reports a miss.  The code has
  no test for NaN, and every comparison with NaN is false, so none of the four rejections
  of \<^verbatim>\<open>Intersect\<close> fires: for a primitive id in the range, a call whose discriminant is NaN
  (as it is whenever a coordinate of the centre, the radius, or a component of the origin
  or of the direction of the ray is NaN) reports a hit and stores NaN in \<^verbatim>\<open>*t_inout\<close>.
\<close>

theorem C3_nan_reports_hit:
  assumes "in_range S i"
    and "load3 (vertices_m S) (unat (3 * i)) = Inr center"
    and "load (radiuss_m S) (unat i) = Inr radius"
    and "disc_of A (ray_org_m S) (ray_dir_m S) center radius = NaN
         \<or> nan3 (ray_org_m S) \<or> nan3 (ray_dir_m S) \<or> nan3 center \<or> radius = NaN"
  shows "Intersect A S t_current i = Inr (True, NaN, S)"
proof -
  have "disc_of A (ray_org_m S) (ray_dir_m S) center radius = NaN"
    using assms(4) disc_of_NaN_input[of "ray_org_m S" "ray_dir_m S" center radius A] by blast
  then show ?thesis
    by (rule Intersect_NaN_disc[OF assms(1-3)])
qed

text \<open>A sphere with a NaN radius, and a sphere with a NaN coordinate.\<close>

theorem C3_nan_reports_hit_witness:
  "in_range (PrepareTraversal nan_radius_sphere ray_down (default_trace_options 1)) 0
   \<and> load3 (vertices_m (PrepareTraversal nan_radius_sphere ray_down (default_trace_options 1)))
        (unat (3 * (0 :: 32 word))) = Inr (Fin 0, Fin 0, Fin 0)
   \<and> load (radiuss_m (PrepareTraversal nan_radius_sphere ray_down (default_trace_options 1)))
        (unat (0 :: 32 word)) = Inr NaN
   \<and> Intersect ieee (PrepareTraversal nan_radius_sphere ray_down (default_trace_options 1)) (Fin 7) 0
       = Inr (True, NaN, PrepareTraversal nan_radius_sphere ray_down (default_trace_options 1))"
proof -
  let ?S = "PrepareTraversal nan_radius_sphere ray_down (default_trace_options 1)"
  have r: "in_range ?S 0"
    by (simp add: in_range_def default_trace_options_def)
  have c: "load3 (vertices_m ?S) (unat (3 * (0 :: 32 word))) = Inr (Fin 0, Fin 0, Fin 0)"
    by (simp add: load3_def nan_radius_sphere_def scene_simps)
  have l: "load (radiuss_m ?S) (unat (0 :: 32 word)) = Inr NaN"
    by (simp add: load_def nan_radius_sphere_def scene_simps)
  show ?thesis
    using C3_nan_reports_hit[OF r c l, of ieee "Fin 7"] r c l by simp
qed

theorem C3_nan_center_counterexample:
  "Intersect ieee (PrepareTraversal nan_sphere ray_down (default_trace_options 1)) (max_t ray_down) 0
     = Inr (True, NaN, PrepareTraversal nan_sphere ray_down (default_trace_options 1))"
proof -
  have "max_t ray_down = Fin (2 ^ 100)" by (simp add: ray_down_def)
  then show ?thesis using nan_sphere_hit by simp
qed

subsection \<open>C4: equal distances\<close>

text \<open>
  Claim C4 says that of two hits at the same distance the recorded one stays.
  \<^verbatim>\<open>Intersect\<close> rejects a distance only when it is greater than \<^verbatim>\<open>*t_inout\<close>, so a sphere
  equal to the recorded one is reported as a hit at the same distance, and the traverser,
  which calls \<^verbatim>\<open>Update\<close> on every reported hit, replaces the recorded primitive by the later
  one: the last primitive seen wins.
\<close>

theorem C4_ties_last_seen_wins:
  assumes "Intersect A S t_current i = Inr (True, t1, S1)"
    and "in_range S j"
    and "load3 (vertices_m S) (unat (3 * j)) = load3 (vertices_m S) (unat (3 * i))"
    and "load (radiuss_m S) (unat j) = load (radiuss_m S) (unat i)"
  shows "leaf_test A (S, t_current, hit) i = Inr (Update S t1 i, t1, True)
       \<and> Intersect A (Update S t1 i) t1 j = Inr (True, t1, Update S t1 i)
       \<and> leaf_test A (Update S t1 i, t1, True) j = Inr (Update S t1 j, t1, True)"
proof -
  from Intersect_hitD[OF assms(1)] obtain center radius where
    h: "S1 = S" "load3 (vertices_m S) (unat (3 * i)) = Inr center"
       "load (radiuss_m S) (unat i) = Inr radius"
       "\<not> flt (disc_of A (ray_org_m S) (ray_dir_m S) center radius) (Fin 0)"
       "\<not> flt (far_root (roots_of A (ray_org_m S) (ray_dir_m S) center radius)) (Fin 0)"
       "t1 = candidate (roots_of A (ray_org_m S) (ray_dir_m S) center radius)"
    by blast
  have c: "load3 (vertices_m S) (unat (3 * j)) = Inr center" using assms(3) h(2) by simp
  have l: "load (radiuss_m S) (unat j) = Inr radius" using assms(4) h(3) by simp
  have again: "Intersect A S t1 j = Inr (True, t1, S)"
    unfolding Intersect_in_range[OF assms(2) c l] using h(4,5,6) by (simp add: fgt_def)
  have first: "leaf_test A (S, t_current, hit) i = Inr (Update S t1 i, t1, True)"
    using assms(1) h(1) by (simp add: leaf_test_def)
  have second: "Intersect A (Update S t1 i) t1 j = Inr (True, t1, Update S t1 i)"
    by (simp add: Intersect_Update again)
  have third: "leaf_test A (Update S t1 i, t1, True) j = Inr (Update S t1 j, t1, True)"
    by (simp add: leaf_test_def second)
  from first second third show ?thesis by blast
qed

text \<open>
  Two equal spheres with ids 0 and 1: after id 0 the record holds id 0 at distance 2, after
  id 1 it holds id 1 at distance 2.
\<close>

theorem C4_ties_last_seen_wins_witness:
  "Intersect ieee (PrepareTraversal twin_spheres ray_down (default_trace_options 2)) (Fin (2 ^ 100)) 0
     = Inr (True, Fin 2, PrepareTraversal twin_spheres ray_down (default_trace_options 2))
   \<and> in_range (PrepareTraversal twin_spheres ray_down (default_trace_options 2)) 1
   \<and> leaf_test ieee
        (Update (PrepareTraversal twin_spheres ray_down (default_trace_options 2)) (Fin 2) 0, Fin 2, True) 1
      = Inr (Update (PrepareTraversal twin_spheres ray_down (default_trace_options 2)) (Fin 2) 1, Fin 2, True)"
  using C4_ties_last_seen_wins[OF twin_hit_0 twin_facts, of False] twin_hit_0 twin_facts(1) by simp

theorem C4_later_twin_replaces_counterexample:
  "leaf_scan ieee (PrepareTraversal twin_spheres ray_down (default_trace_options 2), max_t ray_down, False) [0]
     = Inr (Update (PrepareTraversal twin_spheres ray_down (default_trace_options 2)) (Fin 2) 0, Fin 2, True)
   \<and> leaf_scan ieee (PrepareTraversal twin_spheres ray_down (default_trace_options 2), max_t ray_down, False) [0, 1]
     = Inr (Update (PrepareTraversal twin_spheres ray_down (default_trace_options 2)) (Fin 2) 1, Fin 2, True)
   \<and> prim_id_m (Update (PrepareTraversal twin_spheres ray_down (default_trace_options 2)) (Fin 2) 1) = 1"
proof -
  let ?S = "PrepareTraversal twin_spheres ray_down (default_trace_options 2)"
  have m: "max_t ray_down = Fin (2 ^ 100)" by (simp add: ray_down_def)
  have s0: "leaf_test ieee (?S, max_t ray_down, False) 0 = Inr (Update ?S (Fin 2) 0, Fin 2, True)"
    unfolding leaf_test_def m prod.case twin_hit_0 by simp
  have s1: "leaf_test ieee (Update ?S (Fin 2) 0, Fin 2, True) 1 = Inr (Update ?S (Fin 2) 1, Fin 2, True)"
    unfolding leaf_test_def prod.case twin_hit_1 by simp
  show ?thesis
    by (simp add: s0 s1)
qed

subsection \<open>C5: spheres of radius zero\<close>

text \<open>
  Claim C5 says that a sphere of radius zero is never hit.  \<^verbatim>\<open>Intersect\<close> does not treat a
  radius of zero apart.  Under IEEE arithmetic, for a sphere whose radius is zero: the
  discriminant is computed from \<open>a\<close>, \<open>b\<close> and the computed square of the distance between
  the origin of the ray and the centre, and the call reports a miss when this
  discriminant is negative, when the larger computed root is negative or when the chosen
  root is greater than \<^verbatim>\<open>*t_inout\<close>, and a hit at the chosen root in every other case.
\<close>

theorem C5_zero_radius_not_special:
  assumes "in_range S i"
    and "load3 (vertices_m S) (unat (3 * i)) = Inr center"
    and "load (radiuss_m S) (unat i) = Inr radius"
    and "feq radius (Fin 0)"
  shows "disc_of ieee (ray_org_m S) (ray_dir_m S) center radius =
           quad_disc ieee (quad_a ieee (ray_dir_m S))
             (quad_b ieee (ray_dir_m S) (vsub ieee (ray_org_m S) center))
             (vdot ieee (vsub ieee (ray_org_m S) center) (vsub ieee (ray_org_m S) center))
     \<and> Intersect ieee S t_current i =
         (if flt (disc_of ieee (ray_org_m S) (ray_dir_m S) center radius) (Fin 0) \<or>
             flt (far_root (roots_of ieee (ray_org_m S) (ray_dir_m S) center radius)) (Fin 0) \<or>
             fgt (candidate (roots_of ieee (ray_org_m S) (ray_dir_m S) center radius)) t_current
          then Inr (False, t_current, S)
          else Inr (True, candidate (roots_of ieee (ray_org_m S) (ray_dir_m S) center radius), S))"
proof
  show "disc_of ieee (ray_org_m S) (ray_dir_m S) center radius =
           quad_disc ieee (quad_a ieee (ray_dir_m S))
             (quad_b ieee (ray_dir_m S) (vsub ieee (ray_org_m S) center))
             (vdot ieee (vsub ieee (ray_org_m S) center) (vsub ieee (ray_org_m S) center))"
    using assms(4) by (rule zero_radius_disc)
  show "Intersect ieee S t_current i =
         (if flt (disc_of ieee (ray_org_m S) (ray_dir_m S) center radius) (Fin 0) \<or>
             flt (far_root (roots_of ieee (ray_org_m S) (ray_dir_m S) center radius)) (Fin 0) \<or>
             fgt (candidate (roots_of ieee (ray_org_m S) (ray_dir_m S) center radius)) t_current
          then Inr (False, t_current, S)
          else Inr (True, candidate (roots_of ieee (ray_org_m S) (ray_dir_m S) center radius), S))"
    unfolding Intersect_in_range[OF assms(1-3)] by simp
qed

text \<open>
  The sphere of radius zero at the origin is hit at distance 3 by a ray down the z axis
  that passes the origin at the distance \<open>2\<^sup>-\<^sup>1\<^sup>3\<close>, and missed by one that passes it at the
  distance 1.
\<close>

theorem C5_zero_radius_not_special_witness:
  "in_range (PrepareTraversal point_sphere ray_beside (default_trace_options 1)) 0
   \<and> load3 (vertices_m (PrepareTraversal point_sphere ray_beside (default_trace_options 1)))
        (unat (3 * (0 :: 32 word))) = Inr (Fin 0, Fin 0, Fin 0)
   \<and> load (radiuss_m (PrepareTraversal point_sphere ray_beside (default_trace_options 1)))
        (unat (0 :: 32 word)) = Inr (Fin 0)
   \<and> feq (Fin 0) (Fin 0)
   \<and> Intersect ieee (PrepareTraversal point_sphere ray_beside (default_trace_options 1)) (Fin (2 ^ 100)) 0
       = Inr (True, Fin 3, PrepareTraversal point_sphere ray_beside (default_trace_options 1))
   \<and> (\<forall>s. \<not> on_sphere (org ray_beside) (dir ray_beside) (Fin 0, Fin 0, Fin 0) (Fin 0) s)
   \<and> disc_of ieee (org ray_apart) (dir ray_apart) (Fin 0, Fin 0, Fin 0) (Fin 0) = Fin (- 4)
   \<and> Intersect ieee (PrepareTraversal point_sphere ray_apart (default_trace_options 1)) (Fin (2 ^ 100)) 0
       = Inr (False, Fin (2 ^ 100), PrepareTraversal point_sphere ray_apart (default_trace_options 1))"
proof -
  let ?S = "PrepareTraversal point_sphere ray_beside (default_trace_options 1)"
  let ?T = "PrepareTraversal point_sphere ray_apart (default_trace_options 1)"
  have r: "in_range ?S 0" "in_range ?T 0"
    by (simp_all add: in_range_def default_trace_options_def)
  have c: "load3 (vertices_m ?S) (unat (3 * (0 :: 32 word))) = Inr (Fin 0, Fin 0, Fin 0)"
    "load3 (vertices_m ?T) (unat (3 * (0 :: 32 word))) = Inr (Fin 0, Fin 0, Fin 0)"
    by (simp_all add: load3_def point_sphere_def scene_simps)
  have l: "load (radiuss_m ?S) (unat (0 :: 32 word)) = Inr (Fin 0)"
    "load (radiuss_m ?T) (unat (0 :: 32 word)) = Inr (Fin 0)"
    by (simp_all add: load_def point_sphere_def scene_simps)
  have z: "feq (Fin 0) (Fin 0)"
    by simp
  have f: "\<not> flt (Fin 0) (Fin 0)" "\<not> flt (far_root (Fin 3, Fin 3)) (Fin 0)"
    "candidate (Fin 3, Fin 3) = Fin 3" "\<not> fgt (Fin 3) (Fin (2 ^ 100))" "flt (Fin (- 4)) (Fin 0)"
    by (simp_all add: far_root_def near_root_def candidate_def fgt_def)
  have h: "Intersect ieee ?S (Fin (2 ^ 100)) 0 = Inr (True, Fin 3, ?S)"
    using C5_zero_radius_not_special[OF r(1) c(1) l(1) z, of "Fin (2 ^ 100)"]
    unfolding prepared_fields point_sphere_beside
    by (simp only: f if_False simp_thms)
  have m: "Intersect ieee ?T (Fin (2 ^ 100)) 0 = Inr (False, Fin (2 ^ 100), ?T)"
    using C5_zero_radius_not_special[OF r(2) c(2) l(2) z, of "Fin (2 ^ 100)"]
    unfolding prepared_fields point_sphere_apart
    by (simp only: f if_True simp_thms)
  from r(1) c(1) l(1) z h m beside_never_at_centre point_sphere_apart show ?thesis
    by simp
qed

text \<open>
  The ray from \<open>(0, 0, 3)\<close> down the z axis hits the sphere of radius zero at the origin at
  distance 3.
\<close>

theorem C5_point_sphere_counterexample:
  "load (radiuss_m (PrepareTraversal point_sphere ray_down (default_trace_options 1)))
      (unat (0 :: 32 word)) = Inr (Fin 0)
   \<and> Intersect ieee (PrepareTraversal point_sphere ray_down (default_trace_options 1)) (max_t ray_down) 0
       = Inr (True, Fin 3, PrepareTraversal point_sphere ray_down (default_trace_options 1))"
proof -
  have "max_t ray_down = Fin (2 ^ 100)" by (simp add: ray_down_def)
  then show ?thesis
    using point_sphere_hit by (simp add: load_def point_sphere_def scene_simps)
qed

subsection \<open>C6: primitive ids outside the range\<close>

text \<open>
  Claim C6: for a primitive id outside the range \<open>[lo, hi)\<close> of the trace options stored by
  \<^verbatim>\<open>PrepareTraversal\<close>, for every ray and every current closest distance, \<^verbatim>\<open>Intersect\<close>
  returns false, and leaves the distance and the intersector as they are.
\<close>

theorem C6_outside_range_misses:
  assumes "prim_index < lo \<or> hi \<le> prim_index"
  shows "Intersect A (PrepareTraversal S ray \<lparr>prim_ids_range = (lo, hi), cull_back_face = cull\<rparr>)
           t_current prim_index
         = Inr (False, t_current,
                PrepareTraversal S ray \<lparr>prim_ids_range = (lo, hi), cull_back_face = cull\<rparr>)"
  using assms by (intro Intersect_out_of_range) (auto simp: in_range_def)

theorem C6_outside_range_misses_witness:
  "((1 :: 32 word) < 0 \<or> (1 :: 32 word) \<le> 1)
   \<and> Intersect ieee (PrepareTraversal unit_sphere ray_down \<lparr>prim_ids_range = (0, 1), cull_back_face = False\<rparr>)
        (Fin (2 ^ 100)) 1
      = Inr (False, Fin (2 ^ 100),
             PrepareTraversal unit_sphere ray_down \<lparr>prim_ids_range = (0, 1), cull_back_face = False\<rparr>)"
  using C6_outside_range_misses[of 1 0 1 ieee unit_sphere ray_down False "Fin (2 ^ 100)"] by simp

subsection \<open>C7: the unit sphere\<close>

text \<open>
  Claim C7: for the sphere of radius one at the origin and the ray from \<open>(0, 0, 3)\<close> with
  direction \<open>(0, 0, -1)\<close>, \<open>min_t = 0\<close> and a large \<open>max_t\<close>, \<^verbatim>\<open>Intersect\<close> reports a hit at
  \<open>t = 2\<close>, and \<^verbatim>\<open>PostTraversal\<close>, called after \<^verbatim>\<open>Update\<close> has recorded the hit, computes the
  normal \<open>(0, 0, 1)\<close> and \<open>u = v = 1/2\<close>.  The arithmetic is IEEE arithmetic; of the C library
  only two values are used: \<^verbatim>\<open>atan2(0, 1)\<close> is zero and \<^verbatim>\<open>acos(0)\<close> is the \<^verbatim>\<open>double\<close> nearest
  to \<open>\<pi> / 2\<close>.
\<close>

theorem C7_unit_sphere_scenario:
  assumes "c_atan2 L (Fin 0) (Fin 1) = Fin 0"
    and "c_acos L (Fin 0) = Fin (884279719003555 / 562949953421312)"
  shows "Intersect ieee (PrepareTraversal unit_sphere ray_down (default_trace_options 1)) (max_t ray_down) 0
           = Inr (True, Fin 2, PrepareTraversal unit_sphere ray_down (default_trace_options 1))
     \<and> hit_normal ieee (Update (PrepareTraversal unit_sphere ray_down (default_trace_options 1)) (Fin 2) 0)
           (Fin 0, Fin 0, Fin 0) = (Fin 0, Fin 0, Fin 1)
     \<and> PostTraversal ieee L (Update (PrepareTraversal unit_sphere ray_down (default_trace_options 1)) (Fin 2) 0)
           ray_down True new_intersection
           = Inr \<lparr>isect_u = Fin (1 / 2), isect_v = Fin (1 / 2), isect_t = Fin 2, isect_prim_id = 0\<rparr>"
proof -
  let ?S = "Update (PrepareTraversal unit_sphere ray_down (default_trace_options 1)) (Fin 2) 0"
  have m: "max_t ray_down = Fin (2 ^ 100)" by (simp add: ray_down_def)
  have c: "load3 (vertices_m ?S) (unat (3 * prim_id_m ?S)) = Inr (Fin 0, Fin 0, Fin 0)"
    by (simp add: load3_def unit_sphere_def scene_simps)
  have post: "PostTraversal ieee L ?S ray_down True new_intersection
           = Inr \<lparr>isect_u = Fin (1 / 2), isect_v = Fin (1 / 2), isect_t = Fin 2, isect_prim_id = 0\<rparr>"
    unfolding PostTraversal_def c
    by (simp add: unit_sphere_normal assms u_value v_value new_intersection_def)
  show ?thesis
    unfolding m using unit_sphere_hit unit_sphere_normal post by simp
qed

text \<open>The correctly rounded C library returns these two values.\<close>

theorem C7_unit_sphere_scenario_witness:
  "c_atan2 libm_cr (Fin 0) (Fin 1) = Fin 0
   \<and> c_acos libm_cr (Fin 0) = Fin (884279719003555 / 562949953421312)
   \<and> PostTraversal ieee libm_cr
        (Update (PrepareTraversal unit_sphere ray_down (default_trace_options 1)) (Fin 2) 0)
        ray_down True new_intersection
      = Inr \<lparr>isect_u = Fin (1 / 2), isect_v = Fin (1 / 2), isect_t = Fin 2, isect_prim_id = 0\<rparr>"
  using C7_unit_sphere_scenario[OF libm_cr_values] libm_cr_values by simp

subsection \<open>C8: building on an empty scene\<close>

text \<open>
  Claim C8: when no particle is loaded (the array of radii is empty), \<^verbatim>\<open>BuildBVH\<close> returns
  false without calling \<^verbatim>\<open>Build\<close>: whatever \<^verbatim>\<open>Build\<close> is, the result is false and the
  globals are unchanged.
\<close>

theorem C8_empty_scene_build_fails:
  assumes "radiuss (gParticles g) = []"
  shows "BuildBVH Build g = Inr (False, g)"
  using assms by (simp add: BuildBVH_def)

text \<open>
  With a \<^verbatim>\<open>Build\<close> that counts its calls, the count stays zero on the empty scene and
  becomes one on a scene of one particle.
\<close>

theorem C8_empty_scene_build_fails_witness:
  "radiuss (gParticles \<lparr>gParticles = no_particles, gAccel = (0 :: nat)\<rparr>) = []
   \<and> BuildBVH counting_build \<lparr>gParticles = no_particles, gAccel = 0\<rparr>
       = Inr (False, \<lparr>gParticles = no_particles, gAccel = 0\<rparr>)
   \<and> BuildBVH counting_build
        \<lparr>gParticles = \<lparr>vertices = [Fin 0, Fin 0, Fin 0], colors = [], radiuss = [Fin 1]\<rparr>, gAccel = 0\<rparr>
       = Inr (True, \<lparr>gParticles = \<lparr>vertices = [Fin 0, Fin 0, Fin 0], colors = [], radiuss = [Fin 1]\<rparr>,
                      gAccel = 1\<rparr>)"
  using C8_empty_scene_build_fails[of "\<lparr>gParticles = no_particles, gAccel = (0 :: nat)\<rparr>" counting_build]
  by (simp add: no_particles_def BuildBVH_def counting_build_def)

subsection \<open>C9: a miss changes nothing\<close>

text \<open>
  Claim C9: when \<^verbatim>\<open>Intersect\<close> returns false, \<^verbatim>\<open>*t_inout\<close> is unchanged, and no call changes
  the intersector, so the recorded closest hit \<open>(t_m, prim_id_m)\<close> stays; \<^verbatim>\<open>*t_inout\<close>
  changes only in a call that returns true.
\<close>

theorem C9_miss_changes_nothing:
  assumes "Intersect A S t_inout prim_index = Inr (hit, t_out, S')"
  shows "S' = S \<and> (hit \<or> t_out = t_inout)"
  using assms by (rule Intersect_returns)

text \<open>The unit sphere at distance 2 is missed when the current distance is 1.\<close>

theorem C9_miss_changes_nothing_witness:
  "Intersect ieee (PrepareTraversal unit_sphere ray_down (default_trace_options 1)) (Fin 1) 0
     = Inr (False, Fin 1, PrepareTraversal unit_sphere ray_down (default_trace_options 1))
   \<and> t_m (PrepareTraversal unit_sphere ray_down (default_trace_options 1)) = t_m unit_sphere
   \<and> prim_id_m (PrepareTraversal unit_sphere ray_down (default_trace_options 1)) = prim_id_m unit_sphere"
  using C9_miss_changes_nothing[OF unit_sphere_miss] unit_sphere_miss
  by (simp add: PrepareTraversal_def)

subsection \<open>C10: the field of view\<close>

text \<open>
  Claim C10: for a JSON object with a numeric \<^verbatim>\<open>fov\<close> and no \<^verbatim>\<open>width\<close>, \<^verbatim>\<open>LoadRenderConfig\<close>
  leaves \<open>fov\<close> at 45; \<open>fov\<close> differs from 45 only when the object has a numeric \<^verbatim>\<open>fov\<close> and
  a numeric \<^verbatim>\<open>width\<close>; and then \<open>fov\<close> is the \<^verbatim>\<open>fov\<close> of the object truncated to an integer.
\<close>

theorem C10_fov_applied_only_with_width:
  assumes "LoadRenderConfig A config (Some (JObject obj)) = Inr (ok, config')"
  shows "(\<forall>x. obj ''fov'' = Some (JNumber x) \<and> obj ''width'' = None \<longrightarrow> fov config' = Fin 45)
     \<and> (fov config' \<noteq> Fin 45 \<longrightarrow>
           (\<exists>x w. obj ''fov'' = Some (JNumber x) \<and> obj ''width'' = Some (JNumber w)))
     \<and> (\<forall>x w. obj ''fov'' = Some (JNumber x) \<and> obj ''width'' = Some (JNumber w) \<longrightarrow>
           (\<exists>n. double_to_int x = Inr n \<and> n = trunc_real (valof x) \<and> fov config' = int_to_float A n))"
proof -
  from LoadRenderConfig_fov[OF assms] obtain c c2 obj' where
    r: "read_fov A obj c = Inr (c2, obj')" "fov config' = fov c2"
    by blast
  show ?thesis
    unfolding r(2)
    using read_fov_no_width[OF r(1)] read_fov_changed[OF r(1)] read_fov_applied[OF r(1)]
    by blast
qed

text \<open>
  A \<^verbatim>\<open>fov\<close> of 60.5 is ignored without a \<^verbatim>\<open>width\<close> and becomes 60 with one.
\<close>

theorem C10_fov_applied_only_with_width_witness:
  "LoadRenderConfig ieee blank_config (Some (JObject fov_only))
     = Inr (True, blank_config\<lparr>scene_scale := Fin 1, eye := (Fin 0, Fin 0, Fin 5),
              up := (Fin 0, Fin 1, Fin 0), look_at := (Fin 0, Fin 0, Fin 0), fov := Fin 45,
              width := 512, height := 512\<rparr>)
   \<and> fov_only ''fov'' = Some (JNumber (Fin (121 / 2))) \<and> fov_only ''width'' = None
   \<and> LoadRenderConfig ieee blank_config (Some (JObject fov_and_width))
     = Inr (True, blank_config\<lparr>scene_scale := Fin 1, eye := (Fin 0, Fin 0, Fin 5),
              up := (Fin 0, Fin 1, Fin 0), look_at := (Fin 0, Fin 0, Fin 0), fov := Fin 60,
              width := 640, height := 512\<rparr>)
   \<and> trunc_real (121 / 2) = 60"
  using C10_fov_applied_only_with_width[OF load_fov_only] load_fov_only load_fov_and_width
  by (simp add: fov_only_def trunc_real_def)

end
